theory Spec2Isabelle
  imports Main
begin

section \<open>Data model\<close>

text \<open>
  The operation catalog is the static JSON document \<^verbatim>\<open>admin.paths\<close> /
  \<^verbatim>\<open>store.paths\<close>: route template to per-method operation descriptors.
  An optional JSON field is an \<open>option\<close>: \<open>None\<close> is the absent field
  (\<^verbatim>\<open>undefined\<close>).  A parameter descriptor carries \<^verbatim>\<open>name\<close>,
  \<^verbatim>\<open>in\<close> and \<^verbatim>\<open>schema\<close>: \<open>NoSchema\<close> is a descriptor without the
  \<^verbatim>\<open>schema\<close> field, \<open>SchemaType ty\<close> one whose schema object has \<^verbatim>\<open>type\<close>
  \<open>ty\<close> (\<open>None\<close> when the schema object has no string there).
\<close>

datatype schema_field = NoSchema | SchemaType "string option"

record parameter =
  p_name :: string
  p_in :: string
  p_schema :: schema_field

record operation =
  operationId :: "string option"
  description :: "string option"
  parameters :: "parameter list option"

text \<open>\<^verbatim>\<open>SdkRequestType\<close>: an object that may have the keys \<^verbatim>\<open>get\<close>,
  \<^verbatim>\<open>post\<close>, \<^verbatim>\<open>delete\<close>; \<open>None\<close> is "key not in the object".\<close>

record sdk_request =
  get :: "operation option"
  post :: "operation option"
  delete :: "operation option"

type_synonym catalog = "(string \<times> sdk_request) list"

text \<open>The validation rules built with zod.\<close>

datatype zod =
    ZString
  | ZNumber
  | ZBoolean
  | ZUnknown
  | ZArray zod
  | ZObject "(string \<times> zod) list"
  | ZRecord zod
  | ZOptional zod

type_synonym schema = "string \<rightharpoonup> zod"

text \<open>
  The value of the local variable \<^verbatim>\<open>parameters\<close> in \<^verbatim>\<open>wrapPath\<close>: an array of
  parameter descriptors, or what the \<^verbatim>\<open>get\<close> branch leaves there when the
  descriptor has no \<^verbatim>\<open>parameters\<close> field (the string \<^verbatim>\<open>""\<close> on the admin
  surface, \<^verbatim>\<open>undefined\<close> on the store surface).
\<close>

datatype param_value = PArr "parameter list" | PStr string | PUndefined

text \<open>
  A thrown exception is the left summand of the result: \<open>Error msg\<close> is
  \<^verbatim>\<open>new Error(msg)\<close>, \<open>TypeError\<close> is the runtime's
  "\<^verbatim>\<open>parameters.filter\<close> is not a function" / "cannot read properties of undefined".
\<close>

datatype error = Error string | TypeError

text \<open>
  A compiled tool.  The handler is a closure; the record keeps the three variables it
  captures (\<^verbatim>\<open>refPath\<close>, \<^verbatim>\<open>method\<close>, \<^verbatim>\<open>parameters\<close>), and the handler
  functions below take the tool as an argument.
\<close>

record tool =
  tool_name :: string
  tool_description :: "string option"
  inputSchema :: schema
  handler_refPath :: string
  handler_method :: string
  handler_parameters :: "parameter list"

text \<open>The admin service object: its one mutable field.\<close>

record admin_service =
  adminToken :: string

text \<open>The store service object: the configuration its constructor hands to the SDK client.\<close>

record store_service =
  sdk_baseUrl :: string
  sdk_publishableKey :: string

section \<open>Schema synthesis\<close>

text \<open>The \<^verbatim>\<open>switch (param.schema.type)\<close> of the reducer, on the value of the type.\<close>

definition param_rule :: "string option \<Rightarrow> zod" where
  "param_rule ty =
     (if ty = Some ''string'' then ZOptional ZString
      else if ty = Some ''number'' then ZOptional ZNumber
      else if ty = Some ''boolean'' then ZOptional ZBoolean
      else if ty = Some ''array'' then ZOptional (ZArray ZString)
      else if ty = Some ''object'' then ZOptional (ZObject [])
      else ZOptional ZString)"

text \<open>
  The reducer's accumulator starts as the plain object \<^verbatim>\<open>{}\<close>.  It is its own
  properties and its prototype: \<open>None\<close> is \<^verbatim>\<open>Object.prototype\<close>, \<open>Some r\<close> the
  rule object that an assignment to \<^verbatim>\<open>__proto__\<close> has installed.
\<close>

record accumulator =
  acc_own :: schema
  acc_proto :: "zod option"

text \<open>
  What an object inherits under a property name from a zod rule object (the rule's own
  properties and its classes, short of \<^verbatim>\<open>Object.prototype\<close>).  The zod library is
  not among the sources, so the compiler takes this table as its argument \<open>zc\<close>.
\<close>

datatype inherited = NotInherited | InheritedWritable | InheritedReadOnly | InheritedSetter

text \<open>
  \<^verbatim>\<open>acc[name] = rule\<close>, in strict mode.  An own property is overwritten.  Otherwise
  the prototype chain decides: the \<^verbatim>\<open>__proto__\<close> accessor of \<^verbatim>\<open>Object.prototype\<close>
  makes the rule the accumulator's prototype and creates no property; a read-only
  inherited property makes the assignment throw; an inherited setter is run in place of
  the assignment; in every other case the property is created.
\<close>

definition assign_rule ::
  "(zod \<Rightarrow> string \<Rightarrow> inherited) \<Rightarrow> string \<Rightarrow> zod \<Rightarrow> accumulator \<Rightarrow> error + accumulator" where
  "assign_rule zc name rule acc =
     (if name \<in> dom (acc_own acc) then Inr (acc\<lparr>acc_own := (acc_own acc)(name \<mapsto> rule)\<rparr>)
      else
        (case (case acc_proto acc of None \<Rightarrow> NotInherited | Some r \<Rightarrow> zc r name) of
           NotInherited \<Rightarrow>
             if name = ''__proto__'' then Inr (acc\<lparr>acc_proto := Some rule\<rparr>)
             else Inr (acc\<lparr>acc_own := (acc_own acc)(name \<mapsto> rule)\<rparr>)
         | InheritedWritable \<Rightarrow> Inr (acc\<lparr>acc_own := (acc_own acc)(name \<mapsto> rule)\<rparr>)
         | InheritedReadOnly \<Rightarrow> Inl TypeError
         | InheritedSetter \<Rightarrow> Inr acc))"

text \<open>
  One call of the reducer.  \<^verbatim>\<open>param.schema.type\<close> is read first and throws when the
  descriptor has no \<^verbatim>\<open>schema\<close>.
\<close>

definition reducer ::
  "(zod \<Rightarrow> string \<Rightarrow> inherited) \<Rightarrow> accumulator \<Rightarrow> parameter \<Rightarrow> error + accumulator" where
  "reducer zc acc param =
     (case p_schema param of
        NoSchema \<Rightarrow> Inl TypeError
      | SchemaType ty \<Rightarrow> assign_rule zc (p_name param) (param_rule ty) acc)"

text \<open>\<^verbatim>\<open>Array.prototype.reduce\<close> with a callback that may throw.\<close>

fun reduce :: "('a \<Rightarrow> 'b \<Rightarrow> error + 'a) \<Rightarrow> 'b list \<Rightarrow> 'a \<Rightarrow> error + 'a" where
  "reduce f [] acc = Inr acc"
| "reduce f (x # xs) acc = (case f acc x of Inl e \<Rightarrow> Inl e | Inr acc' \<Rightarrow> reduce f xs acc')"

text \<open>
  \<^verbatim>\<open>parameters.filter((p) => p.in != "header").reduce(..., {})\<close>.  The result is
  spread into the input schema, which takes its own properties only.
\<close>

definition paramSchema :: "(zod \<Rightarrow> string \<Rightarrow> inherited) \<Rightarrow> parameter list \<Rightarrow> error + schema" where
  "paramSchema zc ps =
     (case reduce (reducer zc) (filter (\<lambda>p. p_in p \<noteq> ''header'') ps)
             \<lparr> acc_own = Map.empty, acc_proto = None \<rparr> of
        Inl e \<Rightarrow> Inl e
      | Inr acc \<Rightarrow> Inr (acc_own acc))"

text \<open>An object literal: entries are written in order, a later key overwrites.\<close>

definition object_of :: "(string \<times> 'a) list \<Rightarrow> (string \<rightharpoonup> 'a)" where
  "object_of es = fold (\<lambda>(k, v) acc. acc(k \<mapsto> v)) es Map.empty"

definition admin_body_fields :: "(string \<times> zod) list" where
  "admin_body_fields =
     [(''title'', ZOptional ZString),
      (''description'', ZOptional ZString),
      (''subtitle'', ZOptional ZString),
      (''handle'', ZOptional ZString),
      (''status'', ZOptional ZString),
      (''sku'', ZOptional ZString),
      (''options'', ZOptional ZUnknown),
      (''variants'', ZOptional ZUnknown),
      (''images'', ZOptional ZUnknown),
      (''prices'', ZOptional ZUnknown),
      (''metadata'', ZOptional ZUnknown),
      (''tags'', ZOptional ZUnknown),
      (''type'', ZOptional ZUnknown),
      (''collection_id'', ZOptional ZString),
      (''categories'', ZOptional ZUnknown),
      (''manage_inventory'', ZOptional ZBoolean),
      (''allow_backorder'', ZOptional ZBoolean)]
     @ map (\<lambda>k. (k, ZOptional ZUnknown))
        [''weight'', ''length'', ''height'', ''width'', ''hs_code'', ''mid_code'',
         ''material'', ''origin_country'', ''discountable'', ''is_giftcard'',
         ''thumbnail'', ''external_id'']"

definition store_body_fields :: "(string \<times> zod) list" where
  "store_body_fields =
     [(''email'', ZOptional ZString),
      (''password'', ZOptional ZString),
      (''first_name'', ZOptional ZString),
      (''last_name'', ZOptional ZString),
      (''phone'', ZOptional ZString),
      (''company'', ZOptional ZString),
      (''address_1'', ZOptional ZString),
      (''address_2'', ZOptional ZString),
      (''city'', ZOptional ZString),
      (''country_code'', ZOptional ZString),
      (''province'', ZOptional ZString),
      (''postal_code'', ZOptional ZString),
      (''metadata'', ZOptional (ZRecord ZUnknown))]
     @ map (\<lambda>k. (k, ZOptional ZUnknown))
        [''items'', ''shipping_address'', ''billing_address'', ''context'', ''region_id'']"

definition bodySchema_admin :: "string \<Rightarrow> schema" where
  "bodySchema_admin method =
     (if method \<noteq> ''get'' then object_of admin_body_fields else Map.empty)"

definition bodySchema_store :: "string \<Rightarrow> schema" where
  "bodySchema_store method =
     (if method \<noteq> ''get'' then object_of store_body_fields else Map.empty)"

section \<open>Compiling one operation: \<^verbatim>\<open>wrapPath\<close>\<close>

text \<open>
  Modelled from the spec: \<^verbatim>\<open>defineTool\<close> of \<^verbatim>\<open>utils/define-tools\<close> is not among
  the sources.  The spec has a compiled tool be the record the callback returns
  (name, description, input schema, handler) and has a failure of the callback abort
  the compilation: the callback is run at once and its outcome is the outcome.
\<close>

definition defineTool :: "(unit \<Rightarrow> error + tool) \<Rightarrow> error + tool" where
  "defineTool cb = cb ()"

text \<open>\<^verbatim>\<open>!name\<close>: an absent identifier and the empty string are both falsy.\<close>

definition falsy :: "string option \<Rightarrow> bool" where
  "falsy name = (case name of None \<Rightarrow> True | Some s \<Rightarrow> s = [])"

text \<open>
  The \<^verbatim>\<open>if ("get" in refFunction) ... else if ("post" in refFunction) ... else if
  ("delete" in refFunction)\<close> chain, giving the local variables \<open>(method, name, description, parameters)\<close>.
  The two surfaces differ in the \<^verbatim>\<open>get\<close> branch only:
  \<^verbatim>\<open>refFunction.get.parameters ?? ""\<close> (admin) against
  \<^verbatim>\<open>refFunction.get.parameters\<close> (store).
\<close>

definition select_admin ::
  "sdk_request \<Rightarrow> string \<times> string option \<times> string option \<times> param_value" where
  "select_admin refFunction =
     (case get refFunction of
        Some g \<Rightarrow>
          (''get'', operationId g, description g,
           (case parameters g of Some ps \<Rightarrow> PArr ps | None \<Rightarrow> PStr ''''))
      | None \<Rightarrow>
     (case post refFunction of
        Some p \<Rightarrow>
          (''post'', operationId p, description p,
           (case parameters p of Some ps \<Rightarrow> PArr ps | None \<Rightarrow> PArr []))
      | None \<Rightarrow>
     (case delete refFunction of
        Some d \<Rightarrow>
          (''delete'', operationId d, description d,
           (case parameters d of Some ps \<Rightarrow> PArr ps | None \<Rightarrow> PArr []))
      | None \<Rightarrow> (''get'', None, None, PArr []))))"

definition select_store ::
  "sdk_request \<Rightarrow> string \<times> string option \<times> string option \<times> param_value" where
  "select_store refFunction =
     (case get refFunction of
        Some g \<Rightarrow>
          (''get'', operationId g, description g,
           (case parameters g of Some ps \<Rightarrow> PArr ps | None \<Rightarrow> PUndefined))
      | None \<Rightarrow>
     (case post refFunction of
        Some p \<Rightarrow>
          (''post'', operationId p, description p,
           (case parameters p of Some ps \<Rightarrow> PArr ps | None \<Rightarrow> PArr []))
      | None \<Rightarrow>
     (case delete refFunction of
        Some d \<Rightarrow>
          (''delete'', operationId d, description d,
           (case parameters d of Some ps \<Rightarrow> PArr ps | None \<Rightarrow> PArr []))
      | None \<Rightarrow> (''get'', None, None, PArr []))))"

text \<open>A template literal renders \<^verbatim>\<open>undefined\<close> as the word.\<close>

definition template_str :: "string option \<Rightarrow> string" where
  "template_str s = (case s of None \<Rightarrow> ''undefined'' | Some t \<Rightarrow> t)"

text \<open>
  \<^verbatim>\<open>parameters.filter(...)\<close> on the value of \<^verbatim>\<open>parameters\<close>: a string and
  \<^verbatim>\<open>undefined\<close> have no \<^verbatim>\<open>filter\<close> method.
\<close>

definition schema_of_parameters ::
  "(zod \<Rightarrow> string \<Rightarrow> inherited) \<Rightarrow> param_value \<Rightarrow> error + parameter list \<times> schema" where
  "schema_of_parameters zc params =
     (case params of
        PArr ps \<Rightarrow> (case paramSchema zc ps of Inl e \<Rightarrow> Inl e | Inr sch \<Rightarrow> Inr (ps, sch))
      | PStr s \<Rightarrow> Inl TypeError
      | PUndefined \<Rightarrow> Inl TypeError)"

definition wrapPath_admin ::
  "(zod \<Rightarrow> string \<Rightarrow> inherited) \<Rightarrow> admin_service \<Rightarrow> string \<Rightarrow> sdk_request \<Rightarrow> error + tool" where
  "wrapPath_admin zc this refPath refFunction =
     defineTool (\<lambda>_.
       (case select_admin refFunction of
          (method, name, descr, params) \<Rightarrow>
            if falsy name then Inl (Error (''No name found for path: '' @ refPath))
            else (case schema_of_parameters zc params of
                    Inl e \<Rightarrow> Inl e
                  | Inr (ps, sch) \<Rightarrow>
                      Inr \<lparr> tool_name = ''Admin'' @ the name,
                            tool_description =
                              Some (''This tool helps store administors. ''
                                    @ template_str descr),
                            inputSchema = sch ++ bodySchema_admin method,
                            handler_refPath = refPath,
                            handler_method = method,
                            handler_parameters = ps \<rparr>)))"

definition wrapPath_store ::
  "(zod \<Rightarrow> string \<Rightarrow> inherited) \<Rightarrow> store_service \<Rightarrow> string \<Rightarrow> sdk_request \<Rightarrow> error + tool" where
  "wrapPath_store zc this refPath refFunction =
     defineTool (\<lambda>_.
       (case select_store refFunction of
          (method, name, descr, params) \<Rightarrow>
            if falsy name then Inl (Error (''No name found for path: '' @ refPath))
            else (case schema_of_parameters zc params of
                    Inl e \<Rightarrow> Inl e
                  | Inr (ps, sch) \<Rightarrow>
                      Inr \<lparr> tool_name = the name,
                            tool_description = descr,
                            inputSchema = sch ++ bodySchema_store method,
                            handler_refPath = refPath,
                            handler_method = method,
                            handler_parameters = ps \<rparr>)))"

section \<open>Compiling the catalog: \<^verbatim>\<open>defineTools\<close>\<close>

text \<open>\<^verbatim>\<open>anyRef.get && anyRef.get.operationId\<close>\<close>

definition has_operationId :: "operation option \<Rightarrow> bool" where
  "has_operationId m = (case m of None \<Rightarrow> False | Some d \<Rightarrow> \<not> falsy (operationId d))"

text \<open>\<^verbatim>\<open>if (cond) { tools.push(wrapped) }\<close>, where evaluating \<^verbatim>\<open>wrapped\<close> may throw.\<close>

definition push_if :: "bool \<Rightarrow> error + tool \<Rightarrow> tool list \<Rightarrow> error + tool list" where
  "push_if cond wrapped tools =
     (if cond then (case wrapped of Inl e \<Rightarrow> Inl e | Inr t \<Rightarrow> Inr (tools @ [t]))
      else Inr tools)"

definition only_get :: "sdk_request \<Rightarrow> sdk_request" where
  "only_get anyRef = \<lparr> get = get anyRef, post = None, delete = None \<rparr>"

definition only_post :: "sdk_request \<Rightarrow> sdk_request" where
  "only_post anyRef = \<lparr> get = None, post = post anyRef, delete = None \<rparr>"

definition only_delete :: "sdk_request \<Rightarrow> sdk_request" where
  "only_delete anyRef = \<lparr> get = None, post = None, delete = delete anyRef \<rparr>"

text \<open>The body of the \<^verbatim>\<open>for\<close> loop, for one \<^verbatim>\<open>[path, refFunction]\<close> entry.\<close>

definition route_admin ::
  "(zod \<Rightarrow> string \<Rightarrow> inherited) \<Rightarrow> admin_service \<Rightarrow> string \<Rightarrow> sdk_request \<Rightarrow> tool list
   \<Rightarrow> error + tool list" where
  "route_admin zc this path anyRef tools =
     (case push_if (has_operationId (get anyRef))
             (wrapPath_admin zc this path (only_get anyRef)) tools of
        Inl e \<Rightarrow> Inl e
      | Inr tools1 \<Rightarrow>
     (case push_if (has_operationId (post anyRef))
             (wrapPath_admin zc this path (only_post anyRef)) tools1 of
        Inl e \<Rightarrow> Inl e
      | Inr tools2 \<Rightarrow>
          push_if (has_operationId (delete anyRef))
            (wrapPath_admin zc this path (only_delete anyRef)) tools2))"

definition route_store ::
  "(zod \<Rightarrow> string \<Rightarrow> inherited) \<Rightarrow> store_service \<Rightarrow> string \<Rightarrow> sdk_request \<Rightarrow> tool list
   \<Rightarrow> error + tool list" where
  "route_store zc this path anyRef tools =
     (case push_if (has_operationId (get anyRef))
             (wrapPath_store zc this path (only_get anyRef)) tools of
        Inl e \<Rightarrow> Inl e
      | Inr tools1 \<Rightarrow>
     (case push_if (has_operationId (post anyRef))
             (wrapPath_store zc this path (only_post anyRef)) tools1 of
        Inl e \<Rightarrow> Inl e
      | Inr tools2 \<Rightarrow>
          push_if (has_operationId (delete anyRef))
            (wrapPath_store zc this path (only_delete anyRef)) tools2))"

fun loop_admin ::
  "(zod \<Rightarrow> string \<Rightarrow> inherited) \<Rightarrow> admin_service \<Rightarrow> catalog \<Rightarrow> tool list \<Rightarrow> error + tool list" where
  "loop_admin zc this [] tools = Inr tools"
| "loop_admin zc this ((path, refFunction) # paths) tools =
     (case route_admin zc this path refFunction tools of
        Inl e \<Rightarrow> Inl e
      | Inr tools' \<Rightarrow> loop_admin zc this paths tools')"

fun loop_store ::
  "(zod \<Rightarrow> string \<Rightarrow> inherited) \<Rightarrow> store_service \<Rightarrow> catalog \<Rightarrow> tool list \<Rightarrow> error + tool list" where
  "loop_store zc this [] tools = Inr tools"
| "loop_store zc this ((path, refFunction) # paths) tools =
     (case route_store zc this path refFunction tools of
        Inl e \<Rightarrow> Inl e
      | Inr tools' \<Rightarrow> loop_store zc this paths tools')"

definition defineTools_admin ::
  "(zod \<Rightarrow> string \<Rightarrow> inherited) \<Rightarrow> admin_service \<Rightarrow> catalog \<Rightarrow> error + tool list" where
  "defineTools_admin zc this admin = loop_admin zc this admin []"

definition defineTools_store ::
  "(zod \<Rightarrow> string \<Rightarrow> inherited) \<Rightarrow> store_service \<Rightarrow> catalog \<Rightarrow> error + tool list" where
  "defineTools_store zc this store = loop_store zc this store []"

section \<open>Invoking a tool: the handler\<close>

text \<open>
  The handler's input is data as \<^verbatim>\<open>JSON.parse\<close> yields it, with \<^verbatim>\<open>undefined\<close>
  added: a plain object whose values are such data.  Numbers are kept abstract (type
  \<open>'n\<close>); the functions below take the number-to-string conversion as the argument
  \<open>ns\<close>.  An object is the list of its own enumerable entries, in
  \<^verbatim>\<open>Object.entries\<close> order, and its prototype is \<^verbatim>\<open>Object.prototype\<close>; an own
  entry may have any name, \<^verbatim>\<open>__proto__\<close> and \<^verbatim>\<open>toString\<close> included.  Strings are
  well-formed text (no lone surrogates), which \<^verbatim>\<open>URLSearchParams\<close> stores as it is.
\<close>

datatype 'n jsval =
    JUndefined
  | JNull
  | JBool bool
  | JNum 'n
  | JStr string
  | JArr "'n jsval list"
  | JObj "(string \<times> 'n jsval) list"

type_synonym 'n entries = "(string \<times> 'n jsval) list"

text \<open>
  What reading a property of the input gives: an own entry's value, or what a plain
  object inherits from \<^verbatim>\<open>Object.prototype\<close>: one of its built-in functions, or,
  under \<^verbatim>\<open>__proto__\<close>, \<^verbatim>\<open>Object.prototype\<close> itself.
\<close>

datatype 'n looked_up = Value "'n jsval" | BuiltinFunction string | ObjectPrototype

definition object_prototype_functions :: "string list" where
  "object_prototype_functions =
     [''constructor'', ''__defineGetter__'', ''__defineSetter__'', ''hasOwnProperty'',
      ''__lookupGetter__'', ''__lookupSetter__'', ''isPrototypeOf'',
      ''propertyIsEnumerable'', ''toString'', ''valueOf'', ''toLocaleString'']"

text \<open>\<^verbatim>\<open>(input as any)[name]\<close>: own entries first, then the prototype; a
  property found in neither reads as \<^verbatim>\<open>undefined\<close>.\<close>

definition read_prop :: "'n entries \<Rightarrow> string \<Rightarrow> 'n looked_up" where
  "read_prop obj k =
     (case map_of obj k of
        Some v \<Rightarrow> Value v
      | None \<Rightarrow>
          if k = ''__proto__'' then ObjectPrototype
          else if k \<in> set object_prototype_functions then BuiltinFunction k
          else Value JUndefined)"

text \<open>Running a list of steps that may throw: the first exception ends the run.\<close>

fun sequence_results :: "('e + 'a) list \<Rightarrow> 'e + 'a list" where
  "sequence_results [] = Inr []"
| "sequence_results (r # rs) =
     (case r of
        Inl e \<Rightarrow> Inl e
      | Inr x \<Rightarrow> (case sequence_results rs of Inl e \<Rightarrow> Inl e | Inr xs \<Rightarrow> Inr (x # xs)))"

fun join_comma :: "string list \<Rightarrow> string" where
  "join_comma [] = []"
| "join_comma [s] = s"
| "join_comma (s # t # ss) = s @ '','' @ join_comma (t # ss)"

text \<open>
  \<^verbatim>\<open>String(value)\<close> on data.  An array is its elements joined by commas, with
  \<^verbatim>\<open>null\<close> and \<^verbatim>\<open>undefined\<close> elements rendered empty.  An object is converted
  through its \<^verbatim>\<open>toString\<close>: the inherited one gives \<^verbatim>\<open>[object Object]\<close>; an own
  entry of that name is data, hence not callable, \<^verbatim>\<open>valueOf\<close> (own and not callable,
  or inherited and returning the object) gives no primitive either, and the conversion
  throws a TypeError.
\<close>

fun String_js :: "('n \<Rightarrow> string) \<Rightarrow> 'n jsval \<Rightarrow> error + string" where
  "String_js ns JUndefined = Inr ''undefined''"
| "String_js ns JNull = Inr ''null''"
| "String_js ns (JBool b) = Inr (if b then ''true'' else ''false'')"
| "String_js ns (JNum n) = Inr (ns n)"
| "String_js ns (JStr s) = Inr s"
| "String_js ns (JArr vs) =
     (case sequence_results
             (map (\<lambda>v. if v = JUndefined \<or> v = JNull then Inr [] else String_js ns v) vs) of
        Inl e \<Rightarrow> Inl e
      | Inr ss \<Rightarrow> Inr (join_comma ss))"
| "String_js ns (JObj es) =
     (if ''toString'' \<in> fst ` set es then Inl TypeError else Inr ''[object Object]'')"

text \<open>
  \<^verbatim>\<open>String(value)\<close> on what a property read gives.  The text of a built-in function
  is up to the runtime: argument \<open>fs\<close>, by the function's property name.
\<close>

definition String_read ::
  "('n \<Rightarrow> string) \<Rightarrow> (string \<Rightarrow> string) \<Rightarrow> 'n looked_up \<Rightarrow> error + string" where
  "String_read ns fs r =
     (case r of
        Value v \<Rightarrow> String_js ns v
      | BuiltinFunction k \<Rightarrow> Inr (fs k)
      | ObjectPrototype \<Rightarrow> Inr ''[object Object]'')"

text \<open>
  \<^verbatim>\<open>String.prototype.replace\<close> with a string pattern and a string replacement.
  \<open>split_first pat s\<close> finds the first occurrence of the pattern: the text before it (\<open>pre\<close>) and
  the text after it (\<open>suf\<close>).
\<close>

fun split_first :: "string \<Rightarrow> string \<Rightarrow> (string \<times> string) option" where
  "split_first pat [] = (if pat = [] then Some ([], []) else None)"
| "split_first pat (c # cs) =
     (if take (length pat) (c # cs) = pat then Some ([], drop (length pat) (c # cs))
      else (case split_first pat cs of
              None \<Rightarrow> None
            | Some (pre, suf) \<Rightarrow> Some (c # pre, suf)))"

text \<open>
  The replacement string is a template: \<^verbatim>\<open>$$\<close> stands for a dollar sign,
  \<^verbatim>\<open>$&\<close> for the matched text, \<^verbatim>\<open>$`\<close> for the text before the match and
  \<^verbatim>\<open>$'\<close> for the text after it.  With a string pattern there are no capture groups,
  so every other use of the dollar sign stands for itself.
\<close>

fun GetSubstitution :: "string \<Rightarrow> string \<Rightarrow> string \<Rightarrow> string \<Rightarrow> string" where
  "GetSubstitution matched pre suf [] = []"
| "GetSubstitution matched pre suf [c] = [c]"
| "GetSubstitution matched pre suf (c # d # ds) =
     (if c = CHR ''$'' then
        (if d = CHR ''$'' then CHR ''$'' # GetSubstitution matched pre suf ds
         else if d = CHR ''&'' then matched @ GetSubstitution matched pre suf ds
         else if d = CHR 0x60 then pre @ GetSubstitution matched pre suf ds
         else if d = CHR 0x27 then suf @ GetSubstitution matched pre suf ds
         else c # GetSubstitution matched pre suf (d # ds))
      else c # GetSubstitution matched pre suf (d # ds))"

definition replace_js :: "string \<Rightarrow> string \<Rightarrow> string \<Rightarrow> string" where
  "replace_js s pat replacement =
     (case split_first pat s of
        None \<Rightarrow> s
      | Some (pre, suf) \<Rightarrow>
          pre @ GetSubstitution pat pre suf replacement @ suf)"

text \<open>\<^verbatim>\<open>(parameters || []).filter((p) => p.in === loc).map((p) => p.name)\<close>\<close>

definition queryParamNames :: "parameter list \<Rightarrow> string list" where
  "queryParamNames ps = map p_name (filter (\<lambda>p. p_in p = ''query'') ps)"

definition pathParamNames :: "parameter list \<Rightarrow> string list" where
  "pathParamNames ps = map p_name (filter (\<lambda>p. p_in p = ''path'') ps)"

text \<open>\<^verbatim>\<open>value !== undefined && value !== null\<close>\<close>

definition nullish :: "'n looked_up \<Rightarrow> bool" where
  "nullish r = (r = Value JUndefined \<or> r = Value JNull)"

text \<open>The loop over \<^verbatim>\<open>pathParamNames\<close>, started with \<^verbatim>\<open>finalPath = refPath\<close>.\<close>

fun substitute_path ::
  "('n \<Rightarrow> string) \<Rightarrow> (string \<Rightarrow> string) \<Rightarrow> 'n entries \<Rightarrow> string list \<Rightarrow> string
   \<Rightarrow> error + string" where
  "substitute_path ns fs input [] finalPath = Inr finalPath"
| "substitute_path ns fs input (paramName # rest) finalPath =
     (let value = read_prop input paramName in
      if \<not> nullish value
      then (case String_read ns fs value of
              Inl e \<Rightarrow> Inl e
            | Inr s \<Rightarrow>
                substitute_path ns fs input rest
                  (replace_js finalPath (''{'' @ paramName @ ''}'') s))
      else substitute_path ns fs input rest finalPath)"

text \<open>
  \<^verbatim>\<open>URLSearchParams\<close> is its list of name-value pairs.  \<^verbatim>\<open>append\<close> adds a pair
  at the end; \<^verbatim>\<open>set\<close> overwrites the first pair of that name and removes the others,
  or appends when there is none.
\<close>

definition usp_append :: "string \<Rightarrow> string \<Rightarrow> (string \<times> string) list \<Rightarrow> (string \<times> string) list" where
  "usp_append k v q = q @ [(k, v)]"

fun usp_set :: "string \<Rightarrow> string \<Rightarrow> (string \<times> string) list \<Rightarrow> (string \<times> string) list" where
  "usp_set k v [] = [(k, v)]"
| "usp_set k v ((k', v') # q) =
     (if k' = k then (k, v) # filter (\<lambda>e. fst e \<noteq> k) q else (k', v') # usp_set k v q)"

text \<open>\<^verbatim>\<open>for (const v of value) query.append(name, String(v))\<close>\<close>

fun append_all ::
  "('n \<Rightarrow> string) \<Rightarrow> string \<Rightarrow> 'n jsval list \<Rightarrow> (string \<times> string) list
   \<Rightarrow> error + (string \<times> string) list" where
  "append_all ns name [] query = Inr query"
| "append_all ns name (v # vs) query =
     (case String_js ns v of
        Inl e \<Rightarrow> Inl e
      | Inr s \<Rightarrow> append_all ns name vs (usp_append name s query))"

text \<open>The loop over \<^verbatim>\<open>queryParamNames\<close>, started with an empty \<^verbatim>\<open>URLSearchParams\<close>.\<close>

fun build_query ::
  "('n \<Rightarrow> string) \<Rightarrow> (string \<Rightarrow> string) \<Rightarrow> 'n entries \<Rightarrow> string list
   \<Rightarrow> (string \<times> string) list \<Rightarrow> error + (string \<times> string) list" where
  "build_query ns fs input [] query = Inr query"
| "build_query ns fs input (name # rest) query =
     (let value = read_prop input name in
      if nullish value then build_query ns fs input rest query
      else (case value of
              Value (JArr vs) \<Rightarrow>
                (case append_all ns name vs query of
                   Inl e \<Rightarrow> Inl e
                 | Inr query' \<Rightarrow> build_query ns fs input rest query')
            | _ \<Rightarrow>
                (case String_read ns fs value of
                   Inl e \<Rightarrow> Inl e
                 | Inr s \<Rightarrow> build_query ns fs input rest (usp_set name s query))))"

text \<open>
  The request body is a plain object built by assignments.  It is its own entries and
  its prototype: \<^verbatim>\<open>Object.prototype\<close> at first, and after an assignment to
  \<^verbatim>\<open>__proto__\<close> possibly \<^verbatim>\<open>null\<close> or an object or array of the input.
\<close>

datatype 'n proto = ObjectProto | NullProto | ValueProto "'n jsval"

record 'n js_object =
  obj_proto :: "'n proto"
  obj_own :: "'n entries"

text \<open>Writing an own data property: an existing key keeps its place, a new key goes last.\<close>

fun assign_own :: "string \<Rightarrow> 'a \<Rightarrow> (string \<times> 'a) list \<Rightarrow> (string \<times> 'a) list" where
  "assign_own k v [] = [(k, v)]"
| "assign_own k v ((k', v') # es) =
     (if k' = k then (k, v) # es else (k', v') # assign_own k v es)"

text \<open>
  Whether the lookup of \<^verbatim>\<open>__proto__\<close> along a prototype chain ends at the accessor
  of \<^verbatim>\<open>Object.prototype\<close>: not below a \<^verbatim>\<open>null\<close> prototype, and not when an
  object on the way has an own data property of that name.
\<close>

definition reaches_proto_accessor :: "'n proto \<Rightarrow> bool" where
  "reaches_proto_accessor p =
     (case p of
        ObjectProto \<Rightarrow> True
      | NullProto \<Rightarrow> False
      | ValueProto v \<Rightarrow> (case v of JObj es \<Rightarrow> ''__proto__'' \<notin> fst ` set es | _ \<Rightarrow> True))"

text \<open>
  \<^verbatim>\<open>body[key] = value\<close>.  For the key \<^verbatim>\<open>__proto__\<close>, unless the object owns a
  property of that name, the inherited accessor runs in place of the assignment: it makes
  an object, an array or \<^verbatim>\<open>null\<close> the prototype, ignores every other value, and
  creates no property.
\<close>

definition assign :: "string \<Rightarrow> 'n jsval \<Rightarrow> 'n js_object \<Rightarrow> 'n js_object" where
  "assign key value obj =
     (if key = ''__proto__'' \<and> key \<notin> fst ` set (obj_own obj)
         \<and> reaches_proto_accessor (obj_proto obj)
      then (case value of
              JObj es \<Rightarrow> obj\<lparr>obj_proto := ValueProto value\<rparr>
            | JArr vs \<Rightarrow> obj\<lparr>obj_proto := ValueProto value\<rparr>
            | JNull \<Rightarrow> obj\<lparr>obj_proto := NullProto\<rparr>
            | _ \<Rightarrow> obj)
      else obj\<lparr>obj_own := assign_own key value (obj_own obj)\<rparr>)"

text \<open>The loop over \<^verbatim>\<open>Object.entries(input)\<close>, started with \<^verbatim>\<open>body = {}\<close>.\<close>

fun build_body ::
  "string list \<Rightarrow> string list \<Rightarrow> 'n entries \<Rightarrow> 'n js_object \<Rightarrow> 'n js_object" where
  "build_body qnames pnames [] body = body"
| "build_body qnames pnames ((key, value) # entries) body =
     (if key \<in> set qnames then build_body qnames pnames entries body
      else if key \<in> set pnames then build_body qnames pnames entries body
      else build_body qnames pnames entries (assign key value body))"

text \<open>
  What the handler hands to \<^verbatim>\<open>this.sdk.client.fetch\<close>: the path and the options
  object.  \<open>req_body = None\<close> is an options object without the \<^verbatim>\<open>body\<close> key.
\<close>

record 'n request =
  req_path :: string
  req_method :: string
  req_headers :: "(string \<times> string) list"
  req_query :: "(string \<times> string) list"
  req_body :: "'n js_object option"

definition request_body :: "string \<Rightarrow> parameter list \<Rightarrow> 'n entries \<Rightarrow> 'n js_object option" where
  "request_body method ps input =
     (let body = (if method \<noteq> ''get''
                  then build_body (queryParamNames ps) (pathParamNames ps) input
                         \<lparr> obj_proto = ObjectProto, obj_own = [] \<rparr>
                  else \<lparr> obj_proto = ObjectProto, obj_own = [] \<rparr>)
      in if method = ''get'' then None else Some body)"

text \<open>
  The handler up to the call of \<^verbatim>\<open>fetch\<close>: the request it dispatches, or the
  exception a string conversion throws before anything is dispatched.
\<close>

definition request_admin ::
  "('n \<Rightarrow> string) \<Rightarrow> (string \<Rightarrow> string) \<Rightarrow> admin_service \<Rightarrow> tool \<Rightarrow> 'n entries
   \<Rightarrow> error + 'n request" where
  "request_admin ns fs this t input =
     (case substitute_path ns fs input (pathParamNames (handler_parameters t))
             (handler_refPath t) of
        Inl e \<Rightarrow> Inl e
      | Inr finalPath \<Rightarrow>
     (case build_query ns fs input (queryParamNames (handler_parameters t)) [] of
        Inl e \<Rightarrow> Inl e
      | Inr query \<Rightarrow>
          Inr \<lparr> req_path = finalPath,
                req_method = handler_method t,
                req_headers =
                  [(''Content-Type'', ''application/json''),
                   (''Accept'', ''application/json''),
                   (''Authorization'', ''Bearer '' @ adminToken this)],
                req_query = query,
                req_body = request_body (handler_method t) (handler_parameters t) input \<rparr>))"

text \<open>
  On the store surface the bearer token is read from the environment variable
  \<^verbatim>\<open>PUBLISHABLE_KEY\<close> at each call (argument \<open>env_key\<close>, \<open>None\<close> when unset).  The
  diagnostic line written for \<^verbatim>\<open>get\<close> requests does not enter the request.
\<close>

definition request_store ::
  "('n \<Rightarrow> string) \<Rightarrow> (string \<Rightarrow> string) \<Rightarrow> string option \<Rightarrow> tool \<Rightarrow> 'n entries
   \<Rightarrow> error + 'n request" where
  "request_store ns fs env_key t input =
     (case substitute_path ns fs input (pathParamNames (handler_parameters t))
             (handler_refPath t) of
        Inl e \<Rightarrow> Inl e
      | Inr finalPath \<Rightarrow>
     (case build_query ns fs input (queryParamNames (handler_parameters t)) [] of
        Inl e \<Rightarrow> Inl e
      | Inr query \<Rightarrow>
          Inr \<lparr> req_path = finalPath,
                req_method = handler_method t,
                req_headers =
                  [(''Content-Type'', ''application/json''),
                   (''Accept'', ''application/json''),
                   (''Authorization'', ''Bearer '' @ template_str env_key)],
                req_query = query,
                req_body = request_body (handler_method t) (handler_parameters t) input \<rparr>))"

text \<open>The handler: dispatch through the external HTTP client and return its response.\<close>

definition handler_admin ::
  "('n request \<Rightarrow> 'r) \<Rightarrow> ('n \<Rightarrow> string) \<Rightarrow> (string \<Rightarrow> string) \<Rightarrow> admin_service \<Rightarrow> tool
   \<Rightarrow> 'n entries \<Rightarrow> error + 'r" where
  "handler_admin fetch ns fs this t input =
     (case request_admin ns fs this t input of
        Inl e \<Rightarrow> Inl e
      | Inr request \<Rightarrow> Inr (fetch request))"

definition handler_store ::
  "('n request \<Rightarrow> 'r) \<Rightarrow> ('n \<Rightarrow> string) \<Rightarrow> (string \<Rightarrow> string) \<Rightarrow> string option \<Rightarrow> tool
   \<Rightarrow> 'n entries \<Rightarrow> error + 'r" where
  "handler_store fetch ns fs env_key t input =
     (case request_store ns fs env_key t input of
        Inl e \<Rightarrow> Inl e
      | Inr request \<Rightarrow> Inr (fetch request))"

text \<open>The constructor leaves \<^verbatim>\<open>adminToken = ""\<close>; \<^verbatim>\<open>init\<close> stores the login result.\<close>

definition new_MedusaAdminService :: admin_service where
  "new_MedusaAdminService = \<lparr> adminToken = [] \<rparr>"

definition init :: "string \<Rightarrow> admin_service \<Rightarrow> admin_service" where
  "init res this = this\<lparr> adminToken := res \<rparr>"

section \<open>Reference descriptions\<close>

text \<open>
  The specification's description of the compiler's output, to compare the loop with:
  the operations of a catalog that carry a non-empty \<^verbatim>\<open>operationId\<close>, listed by
  route and, within a route, in the order \<^verbatim>\<open>get\<close>, \<^verbatim>\<open>post\<close>, \<^verbatim>\<open>delete\<close>.
\<close>

definition qualifying_of ::
  "string \<Rightarrow> string \<Rightarrow> operation option \<Rightarrow> (string \<times> string \<times> operation) list" where
  "qualifying_of path method m =
     (case m of
        None \<Rightarrow> []
      | Some d \<Rightarrow> if falsy (operationId d) then [] else [(path, method, d)])"

definition qualifying_operations :: "catalog \<Rightarrow> (string \<times> string \<times> operation) list" where
  "qualifying_operations c =
     concat (map (\<lambda>(path, r). qualifying_of path ''get'' (get r)
                              @ qualifying_of path ''post'' (post r)
                              @ qualifying_of path ''delete'' (delete r)) c)"

text \<open>The object with the one method key, as \<^verbatim>\<open>defineTools\<close> hands it to \<^verbatim>\<open>wrapPath\<close>.\<close>

definition single_method :: "string \<Rightarrow> operation \<Rightarrow> sdk_request" where
  "single_method method d =
     (if method = ''get'' then \<lparr> get = Some d, post = None, delete = None \<rparr>
      else if method = ''post'' then \<lparr> get = None, post = Some d, delete = None \<rparr>
      else \<lparr> get = None, post = None, delete = Some d \<rparr>)"

text \<open>What "structurally identical" compares: a tool's name and the keys of its schema.\<close>

definition descriptor :: "tool \<Rightarrow> string \<times> string set" where
  "descriptor t = (tool_name t, dom (inputSchema t))"

text \<open>
  The values that have a string form: \<^verbatim>\<open>String\<close> throws for an object that owns an
  entry named \<^verbatim>\<open>toString\<close>, and for an array that holds a value it throws for.
\<close>

fun convertible :: "'n jsval \<Rightarrow> bool" where
  "convertible (JArr vs) = list_all convertible vs"
| "convertible (JObj es) = (''toString'' \<notin> fst ` set es)"
| "convertible v = True"

definition convertible_read :: "'n looked_up \<Rightarrow> bool" where
  "convertible_read r = (case r of Value v \<Rightarrow> convertible v | _ \<Rightarrow> True)"

text \<open>The values the handler converts: those under the declared path and query names.\<close>

definition conversions_succeed :: "tool \<Rightarrow> 'n entries \<Rightarrow> bool" where
  "conversions_succeed t input =
     list_all (\<lambda>k. convertible_read (read_prop input k))
       (pathParamNames (handler_parameters t) @ queryParamNames (handler_parameters t))"


text \<open>The entries of a query under one name, each value marked as a conversion's result.\<close>

definition entries_under :: "string \<Rightarrow> (string \<times> string) list \<Rightarrow> (string \<times> (error + string)) list" where
  "entries_under name query = map (\<lambda>e. (fst e, Inr (snd e))) (filter (\<lambda>e. fst e = name) query)"

text \<open>
  The specification's description of the residual body: the input's entries whose keys
  are neither declared query names nor declared path names.
\<close>

definition residual_entries :: "parameter list \<Rightarrow> 'n entries \<Rightarrow> 'n entries" where
  "residual_entries ps input =
     filter (\<lambda>e. fst e \<notin> set (queryParamNames ps) \<and> fst e \<notin> set (pathParamNames ps)) input"

section \<open>Example inputs\<close>

text \<open>The catalogs, tools and inputs at which the theorems below are evaluated.\<close>

definition no_zod_properties :: "zod \<Rightarrow> string \<Rightarrow> inherited" where
  "no_zod_properties r name = NotInherited"

text \<open>The text Node gives for a built-in function of \<^verbatim>\<open>Object.prototype\<close>; the
  property \<^verbatim>\<open>constructor\<close> holds the function named \<^verbatim>\<open>Object\<close>.\<close>

definition builtin_text :: "string \<Rightarrow> string" where
  "builtin_text name =
     ''function '' @ (if name = ''constructor'' then ''Object'' else name) @
     ''() { [native code] }''"





definition id_param :: parameter where
  "id_param = \<lparr> p_name = ''id'', p_in = ''path'', p_schema = SchemaType (Some ''string'') \<rparr>"

definition tags_param :: parameter where
  "tags_param = \<lparr> p_name = ''tags'', p_in = ''query'', p_schema = SchemaType (Some ''array'') \<rparr>"

definition limit_param :: parameter where
  "limit_param =
     \<lparr> p_name = ''limit'', p_in = ''query'', p_schema = SchemaType (Some ''number'') \<rparr>"

definition flag_param :: parameter where
  "flag_param =
     \<lparr> p_name = ''flag'', p_in = ''query'', p_schema = SchemaType (Some ''boolean'') \<rparr>"

definition cursor_param :: parameter where
  "cursor_param =
     \<lparr> p_name = ''cursor'', p_in = ''query'', p_schema = SchemaType (Some ''string'') \<rparr>"

definition q_param :: parameter where
  "q_param = \<lparr> p_name = ''q'', p_in = ''query'', p_schema = SchemaType (Some ''string'') \<rparr>"

definition offset_param :: parameter where
  "offset_param =
     \<lparr> p_name = ''offset'', p_in = ''query'', p_schema = SchemaType (Some ''number'') \<rparr>"

definition filter_param :: parameter where
  "filter_param =
     \<lparr> p_name = ''filter'', p_in = ''query'', p_schema = SchemaType (Some ''object'') \<rparr>"

definition constructor_param :: parameter where
  "constructor_param =
     \<lparr> p_name = ''constructor'', p_in = ''query'', p_schema = SchemaType (Some ''string'') \<rparr>"

definition key_param :: parameter where
  "key_param =
     \<lparr> p_name = ''x-publishable-api-key'', p_in = ''header'',
       p_schema = SchemaType (Some ''string'') \<rparr>"

text \<open>A query parameter named \<^verbatim>\<open>__proto__\<close>, and one without a \<^verbatim>\<open>schema\<close> field.\<close>

definition proto_param :: parameter where
  "proto_param =
     \<lparr> p_name = ''__proto__'', p_in = ''query'', p_schema = SchemaType (Some ''string'') \<rparr>"

definition schemaless_param :: parameter where
  "schemaless_param = \<lparr> p_name = ''sort'', p_in = ''query'', p_schema = NoSchema \<rparr>"

text \<open>\<^verbatim>\<open>GET /store/products/{id}\<close>, with its path parameter and a query parameter.\<close>

definition get_product :: operation where
  "get_product =
     \<lparr> operationId = Some ''GetProductsId'', description = None,
       parameters = Some [id_param, tags_param] \<rparr>"

text \<open>\<^verbatim>\<open>POST /store/products/{id}\<close>, with a path parameter and a header parameter.\<close>

definition post_product :: operation where
  "post_product =
     \<lparr> operationId = Some ''PostProductsId'', description = None,
       parameters = Some [id_param, key_param] \<rparr>"

definition product_item :: sdk_request where
  "product_item = \<lparr> get = Some get_product, post = Some post_product, delete = None \<rparr>"

text \<open>The tools these two operations compile to on the store surface.\<close>

definition get_product_tool :: tool where
  "get_product_tool =
     \<lparr> tool_name = ''GetProductsId'',
       tool_description = None,
       inputSchema =
         object_of [(''id'', ZOptional ZString), (''tags'', ZOptional (ZArray ZString))]
         ++ bodySchema_store ''get'',
       handler_refPath = ''/store/products/{id}'',
       handler_method = ''get'',
       handler_parameters = [id_param, tags_param] \<rparr>"

definition post_product_tool :: tool where
  "post_product_tool =
     \<lparr> tool_name = ''PostProductsId'',
       tool_description = None,
       inputSchema = object_of [(''id'', ZOptional ZString)] ++ bodySchema_store ''post'',
       handler_refPath = ''/store/products/{id}'',
       handler_method = ''post'',
       handler_parameters = [id_param, key_param] \<rparr>"

text \<open>
  A \<^verbatim>\<open>GET\<close> and a \<^verbatim>\<open>POST\<close> tool with one path parameter and several query
  parameters, one of them named \<^verbatim>\<open>constructor\<close>.
\<close>

definition search_parameters :: "parameter list" where
  "search_parameters =
     [id_param, tags_param, limit_param, flag_param, q_param, cursor_param, offset_param,
      filter_param, constructor_param]"

definition search_tool :: "string \<Rightarrow> tool" where
  "search_tool method =
     \<lparr> tool_name = ''SearchProducts'',
       tool_description = None,
       inputSchema = Map.empty,
       handler_refPath = ''/admin/products/{id}/variants'',
       handler_method = method,
       handler_parameters = search_parameters \<rparr>"

text \<open>
  An input with values of every kind; numbers are written as their decimal text.  It has
  no entry under \<^verbatim>\<open>offset\<close> and none under \<^verbatim>\<open>constructor\<close>.
\<close>

definition search_input :: "string entries" where
  "search_input =
     [(''id'', JStr ''prod_1''),
      (''tags'', JArr [JStr ''a'', JNum ''7'', JBool True, JNull, JUndefined,
                        JArr [JStr ''x'', JNull, JUndefined, JStr ''y''],
                        JObj [(''k'', JStr ''v'')], JStr ''a'']),
      (''limit'', JNum ''20''),
      (''flag'', JBool False),
      (''q'', JStr ''shirt''),
      (''cursor'', JNull),
      (''filter'', JObj [(''valueOf'', JStr ''v'')]),
      (''name'', JStr ''X'')]"

text \<open>An input whose \<^verbatim>\<open>tags\<close> value owns a \<^verbatim>\<open>toString\<close> entry.\<close>

definition unconvertible_input :: "string entries" where
  "unconvertible_input = [(''id'', JStr ''prod_1''), (''tags'', JObj [(''toString'', JStr ''t'')])]"

text \<open>
  \<^verbatim>\<open>POST .../products/{id}/variants\<close>, with a path parameter and a query parameter,
  and the tools it compiles to on the two surfaces.
\<close>

definition post_variant :: operation where
  "post_variant =
     \<lparr> operationId = Some ''PostProductsIdVariants'', description = None,
       parameters = Some [id_param, tags_param] \<rparr>"

definition post_variant_admin_tool :: tool where
  "post_variant_admin_tool =
     \<lparr> tool_name = ''AdminPostProductsIdVariants'',
       tool_description = Some ''This tool helps store administors. undefined'',
       inputSchema =
         object_of [(''id'', ZOptional ZString), (''tags'', ZOptional (ZArray ZString))]
         ++ bodySchema_admin ''post'',
       handler_refPath = ''/admin/products/{id}/variants'',
       handler_method = ''post'',
       handler_parameters = [id_param, tags_param] \<rparr>"

definition post_variant_store_tool :: tool where
  "post_variant_store_tool =
     \<lparr> tool_name = ''PostProductsIdVariants'',
       tool_description = None,
       inputSchema =
         object_of [(''id'', ZOptional ZString), (''tags'', ZOptional (ZArray ZString))]
         ++ bodySchema_store ''post'',
       handler_refPath = ''/store/products/{id}/variants'',
       handler_method = ''post'',
       handler_parameters = [id_param, tags_param] \<rparr>"

text \<open>
  The input \<^verbatim>\<open>{"__proto__": "x", "name": "X", "id": "skip-me", "tags": ["a"]}\<close>,
  as \<^verbatim>\<open>JSON.parse\<close> yields it: four own entries.
\<close>

definition proto_input :: "string entries" where
  "proto_input =
     [(''__proto__'', JStr ''x''), (''name'', JStr ''X''), (''id'', JStr ''skip-me''),
      (''tags'', JArr [JStr ''a''])]"

text \<open>
  The admin scenario of the specification, with descriptors that hold an
  \<^verbatim>\<open>operationId\<close> and nothing else.
\<close>

definition bare_operation :: "string \<Rightarrow> operation" where
  "bare_operation opid = \<lparr> operationId = Some opid, description = None, parameters = None \<rparr>"

definition admin_scenario :: catalog where
  "admin_scenario =
     [(''/admin/products/{id}'',
       \<lparr> get = Some (bare_operation ''GetProduct''), post = None,
         delete = Some (bare_operation ''DeleteProduct'') \<rparr>)]"

section \<open>Properties of the compiler\<close>

subsection \<open>The loop over the catalog\<close>

lemma loop_admin_append:
  "loop_admin zc this (c1 @ c2) tools =
     (case loop_admin zc this c1 tools of
        Inl e \<Rightarrow> Inl e
      | Inr ts \<Rightarrow> loop_admin zc this c2 ts)"
  by (induction c1 arbitrary: tools) (auto split: sum.splits)

lemma loop_store_append:
  "loop_store zc this (c1 @ c2) tools =
     (case loop_store zc this c1 tools of
        Inl e \<Rightarrow> Inl e
      | Inr ts \<Rightarrow> loop_store zc this c2 ts)"
  by (induction c1 arbitrary: tools) (auto split: sum.splits)

lemma route_admin_unnamed:
  assumes "falsy (operationId d)"
  shows "route_admin zc this p (r\<lparr>get := Some d\<rparr>) tools =
           route_admin zc this p (r\<lparr>get := None\<rparr>) tools"
    and "route_admin zc this p (r\<lparr>post := Some d\<rparr>) tools =
           route_admin zc this p (r\<lparr>post := None\<rparr>) tools"
    and "route_admin zc this p (r\<lparr>delete := Some d\<rparr>) tools =
           route_admin zc this p (r\<lparr>delete := None\<rparr>) tools"
  using assms
  by (auto simp: route_admin_def push_if_def has_operationId_def only_get_def only_post_def
      only_delete_def split: sum.splits)

lemma route_store_unnamed:
  assumes "falsy (operationId d)"
  shows "route_store zc this p (r\<lparr>get := Some d\<rparr>) tools =
           route_store zc this p (r\<lparr>get := None\<rparr>) tools"
    and "route_store zc this p (r\<lparr>post := Some d\<rparr>) tools =
           route_store zc this p (r\<lparr>post := None\<rparr>) tools"
    and "route_store zc this p (r\<lparr>delete := Some d\<rparr>) tools =
           route_store zc this p (r\<lparr>delete := None\<rparr>) tools"
  using assms
  by (auto simp: route_store_def push_if_def has_operationId_def only_get_def only_post_def
      only_delete_def split: sum.splits)

text \<open>
  \<^verbatim>\<open>wrapPath\<close> throws "No name found" when the operation under the first method key
  it finds has no identifier: under \<^verbatim>\<open>get\<close>; under \<^verbatim>\<open>post\<close> when there is no
  \<^verbatim>\<open>get\<close> key; under \<^verbatim>\<open>delete\<close> when there is neither.
\<close>

lemma wrapPath_admin_unnamed:
  assumes "falsy (operationId d)"
  shows "wrapPath_admin zc this p (r\<lparr>get := Some d\<rparr>) =
           Inl (Error (''No name found for path: '' @ p))"
    and "wrapPath_admin zc this p (r\<lparr>get := None, post := Some d\<rparr>) =
           Inl (Error (''No name found for path: '' @ p))"
    and "wrapPath_admin zc this p \<lparr>get = None, post = None, delete = Some d\<rparr> =
           Inl (Error (''No name found for path: '' @ p))"
  using assms
  by (simp_all add: wrapPath_admin_def defineTool_def select_admin_def)

lemma wrapPath_store_unnamed:
  assumes "falsy (operationId d)"
  shows "wrapPath_store zc this p (r\<lparr>get := Some d\<rparr>) =
           Inl (Error (''No name found for path: '' @ p))"
    and "wrapPath_store zc this p (r\<lparr>get := None, post := Some d\<rparr>) =
           Inl (Error (''No name found for path: '' @ p))"
    and "wrapPath_store zc this p \<lparr>get = None, post = None, delete = Some d\<rparr> =
           Inl (Error (''No name found for path: '' @ p))"
  using assms
  by (simp_all add: wrapPath_store_def defineTool_def select_store_def)

lemma reduce_TypeError:
  "(\<And>acc x e. f acc x = Inl e \<Longrightarrow> e = TypeError) \<Longrightarrow> reduce f xs acc = Inl e \<Longrightarrow> e = TypeError"
  by (induction xs arbitrary: acc) (auto split: sum.splits)

lemma paramSchema_TypeError: "paramSchema zc ps = Inl e \<Longrightarrow> e = TypeError"
proof -
  have "reducer zc acc x = Inl e' \<Longrightarrow> e' = TypeError" for acc x e'
    by (auto simp: reducer_def assign_rule_def split: schema_field.splits inherited.splits
        if_splits option.splits)
  then show "paramSchema zc ps = Inl e \<Longrightarrow> e = TypeError"
    by (auto simp: paramSchema_def split: sum.splits dest: reduce_TypeError[rotated])
qed

lemma schema_of_parameters_TypeError: "schema_of_parameters zc params = Inl e \<Longrightarrow> e = TypeError"
  by (auto simp: schema_of_parameters_def split: param_value.splits sum.splits
      dest: paramSchema_TypeError)

text \<open>Once the name is there, \<^verbatim>\<open>wrapPath\<close> can only fail with a TypeError.\<close>

lemma wrapPath_named_error:
  assumes "\<not> falsy (operationId d)"
  shows "wrapPath_admin zc this p (single_method m d) \<noteq> Inl (Error msg)"
    and "wrapPath_store zc this' p (single_method m d) \<noteq> Inl (Error msg)"
  using assms
  by (auto simp: wrapPath_admin_def wrapPath_store_def defineTool_def select_admin_def
      select_store_def single_method_def
      split: sum.splits prod.splits dest: schema_of_parameters_TypeError)

lemma sequence_results_append:
  "sequence_results (xs @ ys) =
     (case sequence_results xs of
        Inl e \<Rightarrow> Inl e
      | Inr as \<Rightarrow> (case sequence_results ys of Inl e \<Rightarrow> Inl e | Inr bs \<Rightarrow> Inr (as @ bs)))"
  by (induction xs) (auto split: sum.splits)

lemma sequence_results_Inl: "sequence_results rs = Inl e \<Longrightarrow> Inl e \<in> set rs"
  by (induction rs) (auto split: sum.splits)


lemma sequence_results_map_Inr [simp]: "sequence_results (map Inr xs) = Inr xs"
  by (induction xs) auto

text \<open>
  One pass of the loop body, in closed form: the route's qualifying operations are
  compiled in the order \<^verbatim>\<open>get\<close>, \<^verbatim>\<open>post\<close>, \<^verbatim>\<open>delete\<close>, and the first exception
  ends the pass.
\<close>

lemma route_admin_result:
  "route_admin zc this p r tools =
     (case sequence_results
             (map (\<lambda>(path, method, d). wrapPath_admin zc this path (single_method method d))
                (qualifying_operations [(p, r)])) of
        Inl e \<Rightarrow> Inl e
      | Inr ts \<Rightarrow> Inr (tools @ ts))"
  by (auto simp: route_admin_def push_if_def has_operationId_def only_get_def only_post_def
      only_delete_def qualifying_operations_def qualifying_of_def single_method_def
      split: option.splits sum.splits)

lemma route_store_result:
  "route_store zc this p r tools =
     (case sequence_results
             (map (\<lambda>(path, method, d). wrapPath_store zc this path (single_method method d))
                (qualifying_operations [(p, r)])) of
        Inl e \<Rightarrow> Inl e
      | Inr ts \<Rightarrow> Inr (tools @ ts))"
  by (auto simp: route_store_def push_if_def has_operationId_def only_get_def only_post_def
      only_delete_def qualifying_operations_def qualifying_of_def single_method_def
      split: option.splits sum.splits)

lemma qualifying_operations_Cons:
  "qualifying_operations (e # c) = qualifying_operations [e] @ qualifying_operations c"
  by (simp add: qualifying_operations_def)

lemma loop_admin_result:
  "loop_admin zc this c tools =
     (case sequence_results
             (map (\<lambda>(path, method, d). wrapPath_admin zc this path (single_method method d))
                (qualifying_operations c)) of
        Inl e \<Rightarrow> Inl e
      | Inr ts \<Rightarrow> Inr (tools @ ts))"
proof (induction c arbitrary: tools)
  case Nil
  then show ?case by (simp add: qualifying_operations_def)
next
  case (Cons e c)
  obtain p r where e: "e = (p, r)" by (cases e)
  show ?case
    unfolding e loop_admin.simps route_admin_result Cons.IH
      qualifying_operations_Cons[of "(p, r)" c] map_append sequence_results_append
    by (simp split: sum.splits)
qed

lemma loop_store_result:
  "loop_store zc this c tools =
     (case sequence_results
             (map (\<lambda>(path, method, d). wrapPath_store zc this path (single_method method d))
                (qualifying_operations c)) of
        Inl e \<Rightarrow> Inl e
      | Inr ts \<Rightarrow> Inr (tools @ ts))"
proof (induction c arbitrary: tools)
  case Nil
  then show ?case by (simp add: qualifying_operations_def)
next
  case (Cons e c)
  obtain p r where e: "e = (p, r)" by (cases e)
  show ?case
    unfolding e loop_store.simps route_store_result Cons.IH
      qualifying_operations_Cons[of "(p, r)" c] map_append sequence_results_append
    by (simp split: sum.splits)
qed

text \<open>
  The whole compilation in closed form: \<^verbatim>\<open>wrapPath\<close> is run on each qualifying
  operation, in catalog order; the result is the list of the tools, one per qualifying
  operation, unless one of the runs throws, which aborts the compilation.
\<close>

lemma defineTools_result:
  "defineTools_admin zc this c =
     sequence_results
       (map (\<lambda>(path, method, d). wrapPath_admin zc this path (single_method method d))
          (qualifying_operations c))"
  "defineTools_store zc this' c =
     sequence_results
       (map (\<lambda>(path, method, d). wrapPath_store zc this' path (single_method method d))
          (qualifying_operations c))"
  by (simp_all add: defineTools_admin_def defineTools_store_def loop_admin_result
      loop_store_result split: sum.splits)

lemma qualifying_operations_named:
  "(path, method, d) \<in> set (qualifying_operations c) \<Longrightarrow> \<not> falsy (operationId d)"
  by (auto simp: qualifying_operations_def qualifying_of_def split: option.splits if_splits)

lemma defineTools_no_Error:
  "defineTools_admin zc this c \<noteq> Inl (Error msg)"
  "defineTools_store zc this' c \<noteq> Inl (Error msg)"
proof -
  have "wrapPath_admin zc this path (single_method m d) \<noteq> Inl (Error msg)"
    "wrapPath_store zc this' path (single_method m d) \<noteq> Inl (Error msg)"
    if "(path, m, d) \<in> set (qualifying_operations c)" for path m d
    using wrapPath_named_error[OF qualifying_operations_named[OF that]] by blast+
  then show "defineTools_admin zc this c \<noteq> Inl (Error msg)"
    "defineTools_store zc this' c \<noteq> Inl (Error msg)"
    by (auto simp: defineTools_result dest!: sequence_results_Inl) metis+
qed

subsection \<open>One tool per qualifying operation\<close>

text \<open>
  Claim C1: every (route, method) pair whose descriptor carries a non-empty
  \<^verbatim>\<open>operationId\<close> yields exactly one compiled tool, entries without one yield none,
  and the tools come in catalog order (by route, then \<^verbatim>\<open>get\<close>, \<^verbatim>\<open>post\<close>,
  \<^verbatim>\<open>delete\<close>).  By \<open>defineTools_result\<close> the loop does compile exactly these
  operations in this order, but it produces the tools only if no run of \<^verbatim>\<open>wrapPath\<close>
  throws, and \<^verbatim>\<open>wrapPath\<close> throws on a \<^verbatim>\<open>get\<close> descriptor that has an
  \<^verbatim>\<open>operationId\<close> but no \<^verbatim>\<open>parameters\<close> field: the \<^verbatim>\<open>post\<close> and
  \<^verbatim>\<open>delete\<close> branches default the field to \<^verbatim>\<open>[]\<close>, the \<^verbatim>\<open>get\<close> branch defaults
  it to \<^verbatim>\<open>""\<close> (admin) or leaves it \<^verbatim>\<open>undefined\<close> (store), and
  \<^verbatim>\<open>parameters.filter\<close> then throws.  On such a catalog no tool is produced at all.
\<close>

theorem get_without_parameters_aborts:
  "defineTools_admin zc this
     [(''/admin/products'', \<lparr> get = Some (bare_operation ''GetProducts''),
                              post = None, delete = None \<rparr>)] = Inl TypeError
   \<and> defineTools_store zc this'
     [(''/store/products'', \<lparr> get = Some (bare_operation ''GetProducts''),
                              post = None, delete = None \<rparr>)] = Inl TypeError"
  by (simp add: defineTools_admin_def defineTools_store_def route_admin_def route_store_def
      push_if_def has_operationId_def falsy_def wrapPath_admin_def wrapPath_store_def
      defineTool_def select_admin_def select_store_def only_get_def bare_operation_def
      schema_of_parameters_def)

subsection \<open>Operations without an identifier\<close>

text \<open>
  Claim C2 has \<^verbatim>\<open>defineTools\<close> fail fatally when an operation under \<^verbatim>\<open>get\<close>,
  \<^verbatim>\<open>post\<close> or \<^verbatim>\<open>delete\<close> has no operation identifier.  The code guards every call
  of \<^verbatim>\<open>wrapPath\<close> with \<^verbatim>\<open>anyRef.m && anyRef.m.operationId\<close>, so what holds is:
  an operation without a (non-empty) identifier is skipped, the catalog compiling exactly
  as if that method key were absent; \<^verbatim>\<open>defineTools\<close> never raises the
  "No name found" error on any catalog; the error is raised by \<^verbatim>\<open>wrapPath\<close> alone,
  when it is handed such an operation directly, under \<^verbatim>\<open>get\<close>, \<^verbatim>\<open>post\<close> or
  \<^verbatim>\<open>delete\<close>.
\<close>

theorem defineTools_skips_unnamed:
  "(falsy (operationId d) \<longrightarrow>
      defineTools_admin zc this (c1 @ (p, r\<lparr>get := Some d\<rparr>) # c2) =
        defineTools_admin zc this (c1 @ (p, r\<lparr>get := None\<rparr>) # c2)
    \<and> defineTools_admin zc this (c1 @ (p, r\<lparr>post := Some d\<rparr>) # c2) =
        defineTools_admin zc this (c1 @ (p, r\<lparr>post := None\<rparr>) # c2)
    \<and> defineTools_admin zc this (c1 @ (p, r\<lparr>delete := Some d\<rparr>) # c2) =
        defineTools_admin zc this (c1 @ (p, r\<lparr>delete := None\<rparr>) # c2)
    \<and> defineTools_store zc this' (c1 @ (p, r\<lparr>get := Some d\<rparr>) # c2) =
        defineTools_store zc this' (c1 @ (p, r\<lparr>get := None\<rparr>) # c2)
    \<and> defineTools_store zc this' (c1 @ (p, r\<lparr>post := Some d\<rparr>) # c2) =
        defineTools_store zc this' (c1 @ (p, r\<lparr>post := None\<rparr>) # c2)
    \<and> defineTools_store zc this' (c1 @ (p, r\<lparr>delete := Some d\<rparr>) # c2) =
        defineTools_store zc this' (c1 @ (p, r\<lparr>delete := None\<rparr>) # c2)
    \<and> wrapPath_admin zc this p (r\<lparr>get := Some d\<rparr>) =
        Inl (Error (''No name found for path: '' @ p))
    \<and> wrapPath_admin zc this p (r\<lparr>get := None, post := Some d\<rparr>) =
        Inl (Error (''No name found for path: '' @ p))
    \<and> wrapPath_admin zc this p \<lparr>get = None, post = None, delete = Some d\<rparr> =
        Inl (Error (''No name found for path: '' @ p))
    \<and> wrapPath_store zc this' p (r\<lparr>get := Some d\<rparr>) =
        Inl (Error (''No name found for path: '' @ p))
    \<and> wrapPath_store zc this' p (r\<lparr>get := None, post := Some d\<rparr>) =
        Inl (Error (''No name found for path: '' @ p))
    \<and> wrapPath_store zc this' p \<lparr>get = None, post = None, delete = Some d\<rparr> =
        Inl (Error (''No name found for path: '' @ p)))
   \<and> defineTools_admin zc this c \<noteq> Inl (Error msg)
   \<and> defineTools_store zc this' c \<noteq> Inl (Error msg)"
proof -
  have skip: "defineTools_admin zc this (c1 @ (p, r\<lparr>get := Some d\<rparr>) # c2) =
        defineTools_admin zc this (c1 @ (p, r\<lparr>get := None\<rparr>) # c2)
    \<and> defineTools_admin zc this (c1 @ (p, r\<lparr>post := Some d\<rparr>) # c2) =
        defineTools_admin zc this (c1 @ (p, r\<lparr>post := None\<rparr>) # c2)
    \<and> defineTools_admin zc this (c1 @ (p, r\<lparr>delete := Some d\<rparr>) # c2) =
        defineTools_admin zc this (c1 @ (p, r\<lparr>delete := None\<rparr>) # c2)
    \<and> defineTools_store zc this' (c1 @ (p, r\<lparr>get := Some d\<rparr>) # c2) =
        defineTools_store zc this' (c1 @ (p, r\<lparr>get := None\<rparr>) # c2)
    \<and> defineTools_store zc this' (c1 @ (p, r\<lparr>post := Some d\<rparr>) # c2) =
        defineTools_store zc this' (c1 @ (p, r\<lparr>post := None\<rparr>) # c2)
    \<and> defineTools_store zc this' (c1 @ (p, r\<lparr>delete := Some d\<rparr>) # c2) =
        defineTools_store zc this' (c1 @ (p, r\<lparr>delete := None\<rparr>) # c2)"
    if "falsy (operationId d)"
    unfolding defineTools_admin_def defineTools_store_def loop_admin_append loop_store_append
    by (simp add: route_admin_unnamed[OF that] route_store_unnamed[OF that] cong: sum.case_cong)
  have thrown: "wrapPath_admin zc this p (r\<lparr>get := Some d\<rparr>) =
        Inl (Error (''No name found for path: '' @ p))
    \<and> wrapPath_admin zc this p (r\<lparr>get := None, post := Some d\<rparr>) =
        Inl (Error (''No name found for path: '' @ p))
    \<and> wrapPath_admin zc this p \<lparr>get = None, post = None, delete = Some d\<rparr> =
        Inl (Error (''No name found for path: '' @ p))
    \<and> wrapPath_store zc this' p (r\<lparr>get := Some d\<rparr>) =
        Inl (Error (''No name found for path: '' @ p))
    \<and> wrapPath_store zc this' p (r\<lparr>get := None, post := Some d\<rparr>) =
        Inl (Error (''No name found for path: '' @ p))
    \<and> wrapPath_store zc this' p \<lparr>get = None, post = None, delete = Some d\<rparr> =
        Inl (Error (''No name found for path: '' @ p))"
    if "falsy (operationId d)"
    using wrapPath_admin_unnamed[OF that] wrapPath_store_unnamed[OF that] by simp
  have never: "defineTools_admin zc this c \<noteq> Inl (Error msg)"
    "defineTools_store zc this' c \<noteq> Inl (Error msg)"
    by (rule defineTools_no_Error)+
  show ?thesis
    using skip thrown never by blast
qed

theorem defineTools_skips_unnamed_witness:
  "falsy (operationId \<lparr> operationId = None, description = None, parameters = Some [] \<rparr>)
   \<and> defineTools_admin no_zod_properties new_MedusaAdminService
        [(''/admin/products'',
          \<lparr> get = Some \<lparr> operationId = None, description = None, parameters = Some [] \<rparr>,
            post = None, delete = None \<rparr>)] =
       defineTools_admin no_zod_properties new_MedusaAdminService
        [(''/admin/products'', \<lparr> get = None, post = None, delete = None \<rparr>)]
   \<and> wrapPath_admin no_zod_properties new_MedusaAdminService ''/admin/products''
        \<lparr> get = Some \<lparr> operationId = None, description = None, parameters = Some [] \<rparr>,
          post = None, delete = None \<rparr> =
       Inl (Error ''No name found for path: /admin/products'')
   \<and> wrapPath_admin no_zod_properties new_MedusaAdminService ''/admin/products''
        \<lparr> get = None,
          post = Some \<lparr> operationId = None, description = None, parameters = Some [] \<rparr>,
          delete = None \<rparr> =
       Inl (Error ''No name found for path: /admin/products'')
   \<and> wrapPath_admin no_zod_properties new_MedusaAdminService ''/admin/products''
        \<lparr> get = None, post = None,
          delete = Some \<lparr> operationId = None, description = None, parameters = Some [] \<rparr> \<rparr> =
       Inl (Error ''No name found for path: /admin/products'')
   \<and> wrapPath_store no_zod_properties
        \<lparr> sdk_baseUrl = ''http://localhost:9000'', sdk_publishableKey = [] \<rparr>
        ''/admin/products''
        \<lparr> get = Some \<lparr> operationId = None, description = None, parameters = Some [] \<rparr>,
          post = None, delete = None \<rparr> =
       Inl (Error ''No name found for path: /admin/products'')
   \<and> wrapPath_store no_zod_properties
        \<lparr> sdk_baseUrl = ''http://localhost:9000'', sdk_publishableKey = [] \<rparr>
        ''/admin/products''
        \<lparr> get = None,
          post = Some \<lparr> operationId = None, description = None, parameters = Some [] \<rparr>,
          delete = None \<rparr> =
       Inl (Error ''No name found for path: /admin/products'')
   \<and> wrapPath_store no_zod_properties
        \<lparr> sdk_baseUrl = ''http://localhost:9000'', sdk_publishableKey = [] \<rparr>
        ''/admin/products''
        \<lparr> get = None, post = None,
          delete = Some \<lparr> operationId = None, description = None, parameters = Some [] \<rparr> \<rparr> =
       Inl (Error ''No name found for path: /admin/products'')"
  using defineTools_skips_unnamed
    [of "\<lparr> operationId = None, description = None, parameters = Some [] \<rparr>"
        no_zod_properties new_MedusaAdminService "[]" "''/admin/products''"
        "\<lparr> get = None, post = None, delete = None \<rparr>" "[]"
        "\<lparr> sdk_baseUrl = ''http://localhost:9000'', sdk_publishableKey = [] \<rparr>"]
  by (simp add: falsy_def)

text \<open>
  The claim as stated fails on a one-route catalog whose \<^verbatim>\<open>get\<close> descriptor has no
  \<^verbatim>\<open>operationId\<close>: the compilation succeeds, with an empty tool list.
\<close>

theorem defineTools_unnamed_not_fatal:
  "defineTools_admin no_zod_properties new_MedusaAdminService
     [(''/admin/products'',
       \<lparr> get = Some \<lparr> operationId = None, description = None, parameters = Some [] \<rparr>,
         post = None, delete = None \<rparr>)] = Inr []"
  by (simp add: defineTools_admin_def route_admin_def push_if_def has_operationId_def falsy_def)

subsection \<open>Precedence of the body catalog in the schema\<close>








subsection \<open>Schema synthesis on unusual descriptors\<close>

text \<open>
  A parameter named \<^verbatim>\<open>__proto__\<close> leaves no key in the schema: the assignment makes
  its rule the accumulator's prototype.  What a later assignment does then depends on
  what that rule object passes on under the later name.  A parameter without a
  \<^verbatim>\<open>schema\<close> field makes the reducer throw.
\<close>

lemma paramSchema_proto:
  "paramSchema zc [proto_param] = Inr Map.empty"
  "paramSchema zc [id_param, proto_param] = Inr [''id'' \<mapsto> ZOptional ZString]"
  "paramSchema zc [proto_param, id_param] =
     (case zc (ZOptional ZString) ''id'' of
        InheritedReadOnly \<Rightarrow> Inl TypeError
      | InheritedSetter \<Rightarrow> Inr Map.empty
      | _ \<Rightarrow> Inr [''id'' \<mapsto> ZOptional ZString])"
  by (simp_all add: paramSchema_def reducer_def assign_rule_def proto_param_def id_param_def
      param_rule_def split: inherited.splits)

lemma paramSchema_schemaless:
  "paramSchema zc [schemaless_param] = Inl TypeError"
  "paramSchema zc [id_param, schemaless_param] = Inl TypeError"
  by (simp_all add: paramSchema_def reducer_def assign_rule_def schemaless_param_def
      id_param_def param_rule_def)

section \<open>Properties of the handler\<close>

subsection \<open>String conversion\<close>

lemma sequence_results_Inr_iff:
  "(\<exists>xs. sequence_results rs = Inr xs) \<longleftrightarrow> (\<forall>r \<in> set rs. \<exists>x. r = Inr x)"
  by (induction rs) (auto split: sum.splits)

lemma String_js_TypeError: "String_js ns v = Inl e \<Longrightarrow> e = TypeError"
proof (induction v arbitrary: e)
  case (JArr vs)
  from JArr.prems obtain e' where
    "sequence_results
       (map (\<lambda>v. if v = JUndefined \<or> v = JNull then Inr [] else String_js ns v) vs) = Inl e'"
    and e: "e = e'"
    by (auto split: sum.splits)
  then have "Inl e' \<in> (\<lambda>v. if v = JUndefined \<or> v = JNull then Inr [] else String_js ns v) ` set vs"
    using sequence_results_Inl by fastforce
  then obtain v where "v \<in> set vs" "String_js ns v = Inl e'"
    by (auto split: if_splits)
  with JArr.IH e show ?case by blast
qed (auto split: if_splits)

text \<open>\<^verbatim>\<open>String(value)\<close> returns a string exactly on the convertible values.\<close>

lemma String_js_convertible: "(\<exists>s. String_js ns v = Inr s) \<longleftrightarrow> convertible v"
proof (induction v)
  case (JArr vs)
  define G where "G = (\<lambda>v. if v = JUndefined \<or> v = JNull then Inr [] else String_js ns v)"
  have G: "(\<exists>x. G v = Inr x) \<longleftrightarrow> (\<exists>s. String_js ns v = Inr s)" for v
    by (auto simp: G_def)
  have "(\<exists>s. String_js ns (JArr vs) = Inr s) \<longleftrightarrow> (\<exists>ss. sequence_results (map G vs) = Inr ss)"
    by (auto simp: G_def split: sum.splits)
  also have "\<dots> \<longleftrightarrow> (\<forall>v \<in> set vs. \<exists>x. G v = Inr x)"
    unfolding sequence_results_Inr_iff by simp
  also have "\<dots> \<longleftrightarrow> (\<forall>v \<in> set vs. \<exists>s. String_js ns v = Inr s)"
    unfolding G ..
  also have "\<dots> \<longleftrightarrow> list_all convertible vs"
    using JArr.IH by (auto simp: list_all_iff)
  finally show ?case by simp
qed auto

lemma String_js_unconvertible: "\<not> convertible v \<Longrightarrow> String_js ns v = Inl TypeError"
  using String_js_convertible[of ns v] String_js_TypeError[of ns v]
  by (cases "String_js ns v") auto

lemma String_read_convertible:
  "(\<exists>s. String_read ns fs r = Inr s) \<longleftrightarrow> convertible_read r"
  by (cases r) (simp_all add: String_read_def convertible_read_def String_js_convertible)

lemma String_read_unconvertible:
  "\<not> convertible_read r \<Longrightarrow> String_read ns fs r = Inl TypeError"
  by (cases r) (simp_all add: String_read_def convertible_read_def String_js_unconvertible)

lemma nullish_convertible: "nullish r \<Longrightarrow> convertible_read r"
  by (auto simp: nullish_def convertible_read_def)

subsection \<open>When the handler reaches the dispatch\<close>

lemma substitute_path_succeeds:
  "list_all (\<lambda>k. convertible_read (read_prop input k)) pnames \<Longrightarrow>
   \<exists>s. substitute_path ns fs input pnames path = Inr s"
proof (induction pnames arbitrary: path)
  case Nil
  then show ?case by simp
next
  case (Cons k pnames)
  then have c: "convertible_read (read_prop input k)"
    and rest: "list_all (\<lambda>k. convertible_read (read_prop input k)) pnames"
    by simp_all
  from c obtain s where "String_read ns fs (read_prop input k) = Inr s"
    using String_read_convertible by blast
  then show ?case using Cons.IH[OF rest] by (simp add: Let_def)
qed

lemma substitute_path_fails:
  "\<not> list_all (\<lambda>k. convertible_read (read_prop input k)) pnames \<Longrightarrow>
   substitute_path ns fs input pnames path = Inl TypeError"
proof (induction pnames arbitrary: path)
  case Nil
  then show ?case by simp
next
  case (Cons k pnames)
  show ?case
  proof (cases "convertible_read (read_prop input k)")
    case True
    with Cons.prems have "\<not> list_all (\<lambda>k. convertible_read (read_prop input k)) pnames"
      by simp
    from Cons.IH[OF this] show ?thesis
      by (auto simp: Let_def split: sum.splits dest: String_js_TypeError
          simp: String_read_def split: looked_up.splits)
  next
    case False
    then have "\<not> nullish (read_prop input k)" using nullish_convertible by blast
    with False show ?thesis
      by (simp add: Let_def String_read_unconvertible)
  qed
qed

lemma append_all_result:
  "append_all ns name vs query =
     (case sequence_results (map (String_js ns) vs) of
        Inl e \<Rightarrow> Inl e
      | Inr ss \<Rightarrow> Inr (query @ map (Pair name) ss))"
  by (induction vs arbitrary: query) (auto simp: usp_append_def split: sum.splits)

lemma append_all_succeeds:
  "list_all convertible vs \<Longrightarrow> \<exists>q. append_all ns name vs query = Inr q"
proof -
  assume "list_all convertible vs"
  then have "\<forall>r \<in> set (map (String_js ns) vs). \<exists>x. r = Inr x"
    using String_js_convertible by (auto simp: list_all_iff)
  then obtain ss where "sequence_results (map (String_js ns) vs) = Inr ss"
    using sequence_results_Inr_iff by blast
  then show ?thesis by (simp add: append_all_result)
qed

lemma append_all_fails:
  "\<not> list_all convertible vs \<Longrightarrow> append_all ns name vs query = Inl TypeError"
proof -
  assume a: "\<not> list_all convertible vs"
  have "\<not> (\<exists>ss. sequence_results (map (String_js ns) vs) = Inr ss)"
    unfolding sequence_results_Inr_iff using a String_js_convertible
    by (auto simp: list_all_iff)
  then obtain e where e: "sequence_results (map (String_js ns) vs) = Inl e"
    by (cases "sequence_results (map (String_js ns) vs)") auto
  then have "Inl e \<in> set (map (String_js ns) vs)" by (rule sequence_results_Inl)
  then obtain v where "String_js ns v = Inl e" by auto
  then have "e = TypeError" by (rule String_js_TypeError)
  with e show ?thesis by (simp add: append_all_result)
qed

text \<open>One turn of the query loop.\<close>

lemma build_query_Cons:
  "build_query ns fs input (name # rest) query =
     (if nullish (read_prop input name) then build_query ns fs input rest query
      else if convertible_read (read_prop input name) then
        (case read_prop input name of
           Value (JArr vs) \<Rightarrow>
             build_query ns fs input rest
               (query @ map (Pair name) (projr (sequence_results (map (String_js ns) vs))))
         | r \<Rightarrow>
             build_query ns fs input rest
               (usp_set name (projr (String_read ns fs r)) query))
      else Inl TypeError)"
proof (cases "nullish (read_prop input name)")
  case True
  then show ?thesis by (simp add: Let_def)
next
  case False
  show ?thesis
  proof (cases "convertible_read (read_prop input name)")
    case conv: True
    then obtain s where s: "String_read ns fs (read_prop input name) = Inr s"
      using String_read_convertible by blast
    show ?thesis
    proof (cases "\<exists>vs. read_prop input name = Value (JArr vs)")
      case True
      then obtain vs where vs: "read_prop input name = Value (JArr vs)" by blast
      with conv have "list_all convertible vs" by (simp add: convertible_read_def)
      then obtain q where "append_all ns name vs query = Inr q"
        using append_all_succeeds by blast
      then show ?thesis using False conv vs
        by (auto simp: Let_def append_all_result split: sum.splits)
    next
      case notarr: False
      then show ?thesis using False conv s
        by (auto simp: Let_def split: looked_up.splits jsval.splits)
    qed
  next
    case unconv: False
    show ?thesis
    proof (cases "\<exists>vs. read_prop input name = Value (JArr vs)")
      case True
      then obtain vs where vs: "read_prop input name = Value (JArr vs)" by blast
      with unconv have "\<not> list_all convertible vs" by (simp add: convertible_read_def)
      then show ?thesis using False unconv vs
        by (simp add: Let_def append_all_fails)
    next
      case notarr: False
      then show ?thesis using False unconv String_read_unconvertible[OF unconv, of ns fs]
        by (auto simp: Let_def split: looked_up.splits jsval.splits)
    qed
  qed
qed

lemma build_query_succeeds:
  "list_all (\<lambda>k. convertible_read (read_prop input k)) qnames \<Longrightarrow>
   \<exists>q. build_query ns fs input qnames query = Inr q"
proof (induction qnames arbitrary: query)
  case Nil
  then show ?case by simp
next
  case (Cons k qnames)
  then have c: "convertible_read (read_prop input k)"
    and rest: "list_all (\<lambda>k. convertible_read (read_prop input k)) qnames"
    by simp_all
  show ?case
    unfolding build_query_Cons using c Cons.IH[OF rest]
    by (auto split: looked_up.splits jsval.splits)
qed

lemma build_query_fails:
  "\<not> list_all (\<lambda>k. convertible_read (read_prop input k)) qnames \<Longrightarrow>
   build_query ns fs input qnames query = Inl TypeError"
proof (induction qnames arbitrary: query)
  case Nil
  then show ?case by simp
next
  case (Cons k qnames)
  show ?case
  proof (cases "convertible_read (read_prop input k)")
    case True
    with Cons.prems have "\<not> list_all (\<lambda>k. convertible_read (read_prop input k)) qnames"
      by simp
    from Cons.IH[OF this] True show ?thesis
      unfolding build_query_Cons by (auto split: looked_up.splits jsval.splits)
  next
    case False
    then have "\<not> nullish (read_prop input k)" using nullish_convertible by blast
    with False show ?thesis unfolding build_query_Cons by simp
  qed
qed

text \<open>
  The handler reaches the dispatch exactly when every value it converts has a string
  form; otherwise it throws a TypeError.
\<close>

lemma request_succeeds:
  assumes "conversions_succeed t input"
  shows "\<exists>req. request_admin ns fs this t input = Inr req"
    and "\<exists>req. request_store ns fs env_key t input = Inr req"
proof -
  from assms have
    p: "list_all (\<lambda>k. convertible_read (read_prop input k)) (pathParamNames (handler_parameters t))"
    and q: "list_all (\<lambda>k. convertible_read (read_prop input k)) (queryParamNames (handler_parameters t))"
    by (simp_all add: conversions_succeed_def)
  obtain s where s: "substitute_path ns fs input (pathParamNames (handler_parameters t))
      (handler_refPath t) = Inr s"
    using substitute_path_succeeds[OF p] by blast
  obtain qu where qu: "build_query ns fs input (queryParamNames (handler_parameters t)) [] = Inr qu"
    using build_query_succeeds[OF q] by blast
  show "\<exists>req. request_admin ns fs this t input = Inr req"
    "\<exists>req. request_store ns fs env_key t input = Inr req"
    by (simp_all add: request_admin_def request_store_def s qu)
qed

lemma request_fails:
  assumes "\<not> conversions_succeed t input"
  shows "request_admin ns fs this t input = Inl TypeError"
    and "request_store ns fs env_key t input = Inl TypeError"
proof -
  from assms have
    "\<not> list_all (\<lambda>k. convertible_read (read_prop input k)) (pathParamNames (handler_parameters t))
     \<or> \<not> list_all (\<lambda>k. convertible_read (read_prop input k)) (queryParamNames (handler_parameters t))"
    by (auto simp: conversions_succeed_def)
  then have "substitute_path ns fs input (pathParamNames (handler_parameters t))
        (handler_refPath t) = Inl TypeError
      \<or> (\<exists>s. substitute_path ns fs input (pathParamNames (handler_parameters t))
              (handler_refPath t) = Inr s)
        \<and> build_query ns fs input (queryParamNames (handler_parameters t)) [] = Inl TypeError"
    using substitute_path_fails[of input "pathParamNames (handler_parameters t)" ns fs
        "handler_refPath t"]
      substitute_path_succeeds[of input "pathParamNames (handler_parameters t)" ns fs
        "handler_refPath t"]
      build_query_fails[of input "queryParamNames (handler_parameters t)" ns fs "[]"]
    by blast
  then show "request_admin ns fs this t input = Inl TypeError"
    "request_store ns fs env_key t input = Inl TypeError"
    by (auto simp: request_admin_def request_store_def)
qed

subsection \<open>Query serialization\<close>

lemma entries_under_Nil [simp]: "entries_under n [] = []"
  by (simp add: entries_under_def)

lemma entries_under_append [simp]:
  "entries_under n (q @ q') = entries_under n q @ entries_under n q'"
  by (simp add: entries_under_def)








lemma names_search:
  "pathParamNames (handler_parameters (search_tool method)) = [''id'']"
  "queryParamNames (handler_parameters (search_tool method)) =
     [''tags'', ''limit'', ''flag'', ''q'', ''cursor'', ''offset'', ''filter'', ''constructor'']"
  by (simp_all add: pathParamNames_def queryParamNames_def search_tool_def
      search_parameters_def id_param_def tags_param_def limit_param_def flag_param_def
      q_param_def cursor_param_def offset_param_def filter_param_def constructor_param_def)

lemma search_tool_sel:
  "handler_method (search_tool method) = method"
  "handler_refPath (search_tool method) = ''/admin/products/{id}/variants''"
  by (simp_all add: search_tool_def)

lemma read_search_input:
  "read_prop search_input ''id'' = Value (JStr ''prod_1'')"
  "read_prop search_input ''tags'' =
     Value (JArr [JStr ''a'', JNum ''7'', JBool True, JNull, JUndefined,
                  JArr [JStr ''x'', JNull, JUndefined, JStr ''y''],
                  JObj [(''k'', JStr ''v'')], JStr ''a''])"
  "read_prop search_input ''limit'' = Value (JNum ''20'')"
  "read_prop search_input ''flag'' = Value (JBool False)"
  "read_prop search_input ''q'' = Value (JStr ''shirt'')"
  "read_prop search_input ''cursor'' = Value JNull"
  "read_prop search_input ''offset'' = Value JUndefined"
  "read_prop search_input ''filter'' = Value (JObj [(''valueOf'', JStr ''v'')])"
  "read_prop search_input ''constructor'' = BuiltinFunction ''constructor''"
  by (simp_all add: read_prop_def search_input_def object_prototype_functions_def)


lemma search_request_unconvertible:
  "\<not> conversions_succeed (search_tool ''get'') unconvertible_input"
  by (simp add: conversions_succeed_def names_search read_prop_def unconvertible_input_def
      convertible_read_def object_prototype_functions_def)


subsection \<open>Header parameters\<close>

lemma names_get_product:
  "pathParamNames (handler_parameters get_product_tool) = [''id'']"
  "queryParamNames (handler_parameters get_product_tool) = [''tags'']"
  by (simp_all add: pathParamNames_def queryParamNames_def get_product_tool_def
      id_param_def tags_param_def)

lemma names_post_product:
  "pathParamNames (handler_parameters post_product_tool) = [''id'']"
  "queryParamNames (handler_parameters post_product_tool) = []"
  by (simp_all add: pathParamNames_def queryParamNames_def post_product_tool_def
      id_param_def key_param_def)

lemma product_tool_sel:
  "handler_method post_product_tool = ''post''"
  "handler_refPath post_product_tool = ''/store/products/{id}''"
  "handler_method get_product_tool = ''get''"
  "handler_refPath get_product_tool = ''/store/products/{id}''"
  by (simp_all add: post_product_tool_def get_product_tool_def)

lemma wrapPath_store_post_product:
  "wrapPath_store zc this ''/store/products/{id}'' (only_post product_item) =
     Inr post_product_tool"
  by (simp add: wrapPath_store_def defineTool_def select_store_def only_post_def
      product_item_def post_product_def falsy_def schema_of_parameters_def paramSchema_def
      reducer_def assign_rule_def id_param_def key_param_def param_rule_def object_of_def
      post_product_tool_def)

lemma wrapPath_store_get_product:
  "wrapPath_store zc this ''/store/products/{id}'' (only_get product_item) =
     Inr get_product_tool"
  by (simp add: wrapPath_store_def defineTool_def select_store_def only_get_def
      product_item_def get_product_def falsy_def schema_of_parameters_def paramSchema_def
      reducer_def assign_rule_def id_param_def tags_param_def param_rule_def object_of_def
      get_product_tool_def)

lemma reduce_dom:
  "reduce (reducer zc) xs acc = Inr acc' \<Longrightarrow>
   dom (acc_own acc') \<subseteq> dom (acc_own acc) \<union> p_name ` set xs"
proof (induction xs arbitrary: acc)
  case Nil
  then show ?case by simp
next
  case (Cons x xs)
  from Cons.prems obtain acc1 where
    step: "reducer zc acc x = Inr acc1" and rest: "reduce (reducer zc) xs acc1 = Inr acc'"
    by (auto split: sum.splits)
  from step have "dom (acc_own acc1) \<subseteq> dom (acc_own acc) \<union> {p_name x}"
    by (auto simp: reducer_def assign_rule_def
        split: schema_field.splits inherited.splits if_splits option.splits)
  with Cons.IH[OF rest] show ?case by auto
qed

text \<open>The parameter-derived part of the schema has no keys but non-header names.\<close>

lemma dom_paramSchema:
  "paramSchema zc ps = Inr sch \<Longrightarrow> dom sch \<subseteq> p_name ` {p \<in> set ps. p_in p \<noteq> ''header''}"
  by (auto simp: paramSchema_def split: sum.splits dest!: reduce_dom)

lemma reduce_dom_plain:
  "reduce (reducer zc) xs acc = Inr acc' \<Longrightarrow> acc_proto acc = None \<Longrightarrow>
   ''__proto__'' \<notin> p_name ` set xs \<Longrightarrow>
   acc_proto acc' = None \<and> dom (acc_own acc') = dom (acc_own acc) \<union> p_name ` set xs"
proof (induction xs arbitrary: acc)
  case Nil
  then show ?case by simp
next
  case (Cons x xs)
  from Cons.prems obtain acc1 where
    step: "reducer zc acc x = Inr acc1" and rest: "reduce (reducer zc) xs acc1 = Inr acc'"
    by (auto split: sum.splits)
  from step Cons.prems(2,3) have
    "acc_proto acc1 = None \<and> dom (acc_own acc1) = dom (acc_own acc) \<union> {p_name x}"
    by (auto simp: reducer_def assign_rule_def split: schema_field.splits if_splits)
  with Cons.IH[OF rest] Cons.prems(3) show ?case by auto
qed

text \<open>When no parameter is named \<^verbatim>\<open>__proto__\<close>, the keys of the schema are exactly the
  names of the non-header parameters.\<close>

lemma dom_paramSchema_plain:
  assumes "paramSchema zc ps = Inr sch"
    and "''__proto__'' \<notin> p_name ` {p \<in> set ps. p_in p \<noteq> ''header''}"
  shows "dom sch = p_name ` {p \<in> set ps. p_in p \<noteq> ''header''}"
proof -
  from assms(1) obtain acc' where
    r: "reduce (reducer zc) (filter (\<lambda>p. p_in p \<noteq> ''header'') ps)
          \<lparr>acc_own = Map.empty, acc_proto = None\<rparr> = Inr acc'"
    and sch: "sch = acc_own acc'"
    by (auto simp: paramSchema_def split: sum.splits)
  from reduce_dom_plain[OF r] assms(2) sch show ?thesis by simp
qed

text \<open>
  Claim C4: a header parameter's name is not a key of the input schema, and no value
  under that name is forwarded in the path, the query or the body.  The schema part
  holds (\<open>dom_paramSchema\<close>) unless the name is also that of a non-header parameter or of
  a body-catalog field.  The forwarding part fails: the loop that builds the body skips
  the declared query and path names only, although its comment reads "exclude
  query/header/path params".  For the store operation \<^verbatim>\<open>POST /store/products/{id}\<close>
  with a header parameter \<^verbatim>\<open>x-publishable-api-key\<close>, the name is not in the schema, yet
  an input value under it is sent in the request body.
\<close>

theorem header_value_forwarded:
  "wrapPath_store zc this ''/store/products/{id}'' (only_post product_item) =
     Inr post_product_tool
   \<and> key_param \<in> set (handler_parameters post_product_tool)
   \<and> p_in key_param = ''header''
   \<and> inputSchema post_product_tool (p_name key_param) = None
   \<and> map_sum id req_body
        (request_store ns fs env_key post_product_tool
           [(''id'', JStr ''prod_1''), (p_name key_param, JStr ''pk_1'')]) =
       Inr (Some \<lparr> obj_proto = ObjectProto,
                   obj_own = [(p_name key_param, JStr ''pk_1'')] \<rparr>)"
proof -
  have "inputSchema post_product_tool (p_name key_param) = None"
    by (simp add: post_product_tool_def key_param_def bodySchema_store_def object_of_def
        store_body_fields_def map_add_def)
  moreover have "map_sum id req_body
        (request_store ns fs env_key post_product_tool
           [(''id'', JStr ''prod_1''), (p_name key_param, JStr ''pk_1'')]) =
       Inr (Some \<lparr> obj_proto = ObjectProto,
                   obj_own = [(p_name key_param, JStr ''pk_1'')] \<rparr>)"
    by (simp add: request_store_def request_body_def names_post_product product_tool_sel
        key_param_def read_prop_def nullish_def String_read_def Let_def assign_def
        replace_js_def)
  moreover have "key_param \<in> set (handler_parameters post_product_tool)"
    "p_in key_param = ''header''"
    by (simp_all add: post_product_tool_def key_param_def)
  ultimately show ?thesis using wrapPath_store_post_product by simp
qed

subsection \<open>The residual body\<close>

lemma assign_own_fresh: "k \<notin> fst ` set es \<Longrightarrow> assign_own k v es = es @ [(k, v)]"
  by (induction es) auto

text \<open>
  The own entries of the body, for an input with distinct keys: the residual entries
  without the one named \<^verbatim>\<open>__proto__\<close>.
\<close>

lemma build_body_own:
  "distinct (map fst input) \<Longrightarrow> fst ` set input \<inter> fst ` set (obj_own body) = {} \<Longrightarrow>
   ''__proto__'' \<notin> fst ` set (obj_own body) \<Longrightarrow>
   (''__proto__'' \<in> fst ` set input \<longrightarrow> reaches_proto_accessor (obj_proto body)) \<Longrightarrow>
   obj_own (build_body q p input body) =
     obj_own body
     @ filter (\<lambda>e. fst e \<notin> set q \<and> fst e \<notin> set p \<and> fst e \<noteq> ''__proto__'') input"
proof (induction input arbitrary: body)
  case Nil
  then show ?case by simp
next
  case (Cons e input)
  obtain key val where e: "e = (key, val)" by (cases e)
  have d: "distinct (map fst input)" and fresh: "key \<notin> fst ` set (obj_own body)"
    and notin: "key \<notin> fst ` set input"
    using Cons.prems by (auto simp: e)
  have disj: "fst ` set input \<inter> fst ` set (obj_own body) = {}" using Cons.prems by auto
  show ?case
  proof (cases "key \<in> set q \<or> key \<in> set p")
    case True
    have "''__proto__'' \<in> fst ` set input \<longrightarrow> reaches_proto_accessor (obj_proto body)"
      using Cons.prems(4) by auto
    from Cons.IH[OF d disj Cons.prems(3) this] True show ?thesis by (auto simp: e)
  next
    case False
    show ?thesis
    proof (cases "key = ''__proto__''")
      case True
      then have reach: "reaches_proto_accessor (obj_proto body)"
        using Cons.prems(4) by (simp add: e)
      have own: "obj_own (assign key val body) = obj_own body"
        using True reach Cons.prems(3) by (simp add: assign_def split: jsval.splits)
      have "''__proto__'' \<notin> fst ` set input" using True notin by simp
      then have "''__proto__'' \<in> fst ` set input \<longrightarrow>
          reaches_proto_accessor (obj_proto (assign key val body))" by simp
      from Cons.IH[of "assign key val body", OF d _ _ this] own disj Cons.prems(3) False True
      show ?thesis by (simp add: e)
    next
      case notproto: False
      have a: "assign key val body = body\<lparr>obj_own := obj_own body @ [(key, val)]\<rparr>"
        using notproto by (simp add: assign_def assign_own_fresh[OF fresh])
      have 1: "fst ` set input \<inter> fst ` set (obj_own (assign key val body)) = {}"
        using disj notin by (auto simp: a)
      have 2: "''__proto__'' \<notin> fst ` set (obj_own (assign key val body))"
        using Cons.prems(3) notproto by (auto simp: a)
      have 3: "''__proto__'' \<in> fst ` set input \<longrightarrow>
          reaches_proto_accessor (obj_proto (assign key val body))"
        using Cons.prems(4) by (auto simp: a)
      from Cons.IH[OF d 1 2 3] False notproto show ?thesis by (simp add: e a)
    qed
  qed
qed

lemma build_body_proto:
  "''__proto__'' \<notin> fst ` set input \<Longrightarrow> obj_proto (build_body q p input body) = obj_proto body"
proof (induction input arbitrary: body)
  case Nil
  then show ?case by simp
next
  case (Cons e input)
  obtain key val where e: "e = (key, val)" by (cases e)
  with Cons.prems have "key \<noteq> ''__proto__''" "''__proto__'' \<notin> fst ` set input" by auto
  with Cons.IH show ?case by (simp add: e assign_def)
qed

text \<open>
  A \<^verbatim>\<open>get\<close> request carries no body.  For any other method and an input without an
  entry named \<^verbatim>\<open>__proto__\<close>, the body is the plain object of the residual entries.
\<close>

lemma residual_body_plain:
  "request_body ''get'' ps input = None"
  "method \<noteq> ''get'' \<Longrightarrow> distinct (map fst input) \<Longrightarrow> ''__proto__'' \<notin> fst ` set input \<Longrightarrow>
   request_body method ps input =
     Some \<lparr> obj_proto = ObjectProto, obj_own = residual_entries ps (input :: 'n entries) \<rparr>"
proof -
  show "request_body ''get'' ps input = None" by (simp add: request_body_def)
next
  assume m: "method \<noteq> ''get''" and d: "distinct (map fst input)"
    and n: "''__proto__'' \<notin> fst ` set input"
  let ?b = "build_body (queryParamNames ps) (pathParamNames ps) input
              \<lparr> obj_proto = ObjectProto, obj_own = [] \<rparr>"
  have "obj_own ?b = filter (\<lambda>e. fst e \<notin> set (queryParamNames ps)
      \<and> fst e \<notin> set (pathParamNames ps) \<and> fst e \<noteq> ''__proto__'') input"
    using build_body_own[OF d, of "\<lparr> obj_proto = ObjectProto, obj_own = [] \<rparr>"
        "queryParamNames ps" "pathParamNames ps"] n
    by simp
  also have "\<dots> = residual_entries ps input"
    unfolding residual_entries_def using n by (intro filter_cong) force+
  finally have own: "obj_own ?b = residual_entries ps input" .
  have "obj_proto ?b = ObjectProto" using build_body_proto[OF n] by simp
  with own have "?b = \<lparr> obj_proto = ObjectProto, obj_own = residual_entries ps input \<rparr>"
    by (cases ?b) simp
  with m show "request_body method ps input =
     Some \<lparr> obj_proto = ObjectProto, obj_own = residual_entries ps input \<rparr>"
    by (simp add: request_body_def)
qed

lemma names_post_variant:
  "pathParamNames (handler_parameters post_variant_admin_tool) = [''id'']"
  "queryParamNames (handler_parameters post_variant_admin_tool) = [''tags'']"
  "pathParamNames (handler_parameters post_variant_store_tool) = [''id'']"
  "queryParamNames (handler_parameters post_variant_store_tool) = [''tags'']"
  by (simp_all add: pathParamNames_def queryParamNames_def post_variant_admin_tool_def
      post_variant_store_tool_def id_param_def tags_param_def)

lemma post_variant_tool_sel:
  "handler_method post_variant_admin_tool = ''post''"
  "handler_refPath post_variant_admin_tool = ''/admin/products/{id}/variants''"
  "handler_method post_variant_store_tool = ''post''"
  "handler_refPath post_variant_store_tool = ''/store/products/{id}/variants''"
  by (simp_all add: post_variant_admin_tool_def post_variant_store_tool_def)

lemma wrapPath_post_variant:
  "wrapPath_admin zc this ''/admin/products/{id}/variants''
     \<lparr> get = None, post = Some post_variant, delete = None \<rparr> = Inr post_variant_admin_tool"
  "wrapPath_store zc this' ''/store/products/{id}/variants''
     \<lparr> get = None, post = Some post_variant, delete = None \<rparr> = Inr post_variant_store_tool"
  by (simp_all add: wrapPath_admin_def wrapPath_store_def defineTool_def select_admin_def
      select_store_def post_variant_def falsy_def schema_of_parameters_def paramSchema_def
      reducer_def assign_rule_def id_param_def tags_param_def param_rule_def object_of_def
      post_variant_admin_tool_def post_variant_store_tool_def template_str_def)

text \<open>
  Claim C5: a \<^verbatim>\<open>get\<close> request carries no body, whatever the input holds; for any
  other method the body is exactly the input's entries whose keys are neither declared
  query-parameter names nor declared path-parameter names, with their values unchanged.
  The first half holds, and so does the second for an input without an entry named
  \<^verbatim>\<open>__proto__\<close> (\<open>residual_body_plain\<close>).  An entry of that name, which
  \<^verbatim>\<open>JSON.parse\<close> makes an own property of the input, is lost: in the loop that copies
  the residual entries, \<^verbatim>\<open>body[key] = value\<close> runs the inherited \<^verbatim>\<open>__proto__\<close>
  accessor instead of creating the property.  For the \<^verbatim>\<open>post\<close> operation with the
  path parameter \<^verbatim>\<open>id\<close> and the query parameter \<^verbatim>\<open>tags\<close>, on either surface,
  the residual entries of the input
  \<^verbatim>\<open>{"__proto__": "x", "name": "X", "id": "skip-me", "tags": ["a"]}\<close> are
  \<^verbatim>\<open>__proto__\<close> and \<^verbatim>\<open>name\<close>, and the body that is dispatched holds
  \<^verbatim>\<open>name\<close> alone.
\<close>

theorem proto_entry_dropped:
  "wrapPath_admin zc this ''/admin/products/{id}/variants''
     \<lparr> get = None, post = Some post_variant, delete = None \<rparr> = Inr post_variant_admin_tool
   \<and> wrapPath_store zc this' ''/store/products/{id}/variants''
     \<lparr> get = None, post = Some post_variant, delete = None \<rparr> = Inr post_variant_store_tool
   \<and> distinct (map fst proto_input)
   \<and> residual_entries (handler_parameters post_variant_admin_tool) proto_input =
       [(''__proto__'', JStr ''x''), (''name'', JStr ''X'')]
   \<and> residual_entries (handler_parameters post_variant_store_tool) proto_input =
       [(''__proto__'', JStr ''x''), (''name'', JStr ''X'')]
   \<and> map_sum id req_body
        (request_admin ns fs service post_variant_admin_tool proto_input) =
       Inr (Some \<lparr> obj_proto = ObjectProto, obj_own = [(''name'', JStr ''X'')] \<rparr>)
   \<and> map_sum id req_body
        (request_store ns fs env_key post_variant_store_tool proto_input) =
       Inr (Some \<lparr> obj_proto = ObjectProto, obj_own = [(''name'', JStr ''X'')] \<rparr>)"
proof -
  have "residual_entries (handler_parameters post_variant_admin_tool) proto_input =
       [(''__proto__'', JStr ''x''), (''name'', JStr ''X'')]"
    "residual_entries (handler_parameters post_variant_store_tool) proto_input =
       [(''__proto__'', JStr ''x''), (''name'', JStr ''X'')]"
    "distinct (map fst proto_input)"
    by (simp_all add: residual_entries_def names_post_variant proto_input_def)
  moreover have "map_sum id req_body
        (request_admin ns fs service post_variant_admin_tool proto_input) =
       Inr (Some \<lparr> obj_proto = ObjectProto, obj_own = [(''name'', JStr ''X'')] \<rparr>)"
    "map_sum id req_body
        (request_store ns fs env_key post_variant_store_tool proto_input) =
       Inr (Some \<lparr> obj_proto = ObjectProto, obj_own = [(''name'', JStr ''X'')] \<rparr>)"
    by (simp_all add: request_admin_def request_store_def request_body_def
        names_post_variant post_variant_tool_sel proto_input_def read_prop_def nullish_def
        String_read_def Let_def assign_def reaches_proto_accessor_def usp_append_def
        replace_js_def)
  ultimately show ?thesis using wrapPath_post_variant by simp
qed

subsection \<open>Path substitution\<close>

lemma GetSubstitution_plain:
  "CHR ''$'' \<notin> set r \<Longrightarrow> GetSubstitution m pre suf r = r"
  by (induction m pre suf r rule: GetSubstitution.induct) auto

lemma split_first_sound:
  "split_first pat s = Some (pre, suf) \<Longrightarrow> s = pre @ pat @ suf"
proof (induction s arbitrary: pre)
  case Nil
  then show ?case by (simp split: if_splits)
next
  case (Cons c cs)
  show ?case
  proof (cases "take (length pat) (c # cs) = pat")
    case True
    with Cons.prems have "pre = []" "suf = drop (length pat) (c # cs)" by auto
    with True show ?thesis by (metis append_Nil append_take_drop_id)
  next
    case False
    with Cons.prems obtain pre' where "split_first pat cs = Some (pre', suf)" "pre = c # pre'"
      by (auto split: option.splits)
    with Cons.IH show ?thesis by auto
  qed
qed

text \<open>
  Where the value's string form has no dollar sign, the first occurrence of the
  placeholder is replaced by it; a template without the placeholder is left as it is; a
  parameter whose value reads as \<^verbatim>\<open>undefined\<close> or \<^verbatim>\<open>null\<close> leaves the path as it
  is.
\<close>

lemma replace_js_plain:
  "split_first pat s = Some (pre, suf) \<Longrightarrow> CHR ''$'' \<notin> set r \<Longrightarrow>
   replace_js s pat r = pre @ r @ suf"
  by (simp add: replace_js_def GetSubstitution_plain)

lemma replace_js_absent: "split_first pat s = None \<Longrightarrow> replace_js s pat r = s"
  by (simp add: replace_js_def)

lemma substitute_path_unresolved:
  "nullish (read_prop input n) \<Longrightarrow> substitute_path ns fs input [n] path = Inr path"
  by (simp add: Let_def)

lemma substitute_path_examples:
  "substitute_path ns fs [(''id'', JStr ''42'')] [''id''] ''/store/products/{id}'' =
     Inr ''/store/products/42''"
  "substitute_path ns fs [] [''id''] ''/store/products/{id}'' = Inr ''/store/products/{id}''"
  by (simp_all add: read_prop_def replace_js_def nullish_def String_read_def Let_def
      object_prototype_functions_def)

text \<open>
  Claim C6: a path parameter with a value that is neither \<^verbatim>\<open>null\<close> nor
  \<^verbatim>\<open>undefined\<close> has its placeholder replaced by the value's string form, and an absent
  or \<^verbatim>\<open>null\<close> one leaves the placeholder in the path.  The second half holds
  (\<open>substitute_path_unresolved\<close>).  The first half fails for values that contain a
  dollar pattern, since \<^verbatim>\<open>String.prototype.replace\<close> expands these in a replacement
  string: for \<^verbatim>\<open>GET /store/products/{id}\<close> the value \<^verbatim>\<open>$&\<close> leaves the placeholder in
  the path, and the value \<^verbatim>\<open>a$$b\<close> puts \<^verbatim>\<open>a$b\<close> there.
\<close>

theorem dollar_pattern_in_path_value:
  "wrapPath_store zc this ''/store/products/{id}'' (only_get product_item) =
     Inr get_product_tool
   \<and> String_js ns (JStr ''$&'') = Inr ''$&''
   \<and> map_sum id req_path
        (request_store ns fs env_key get_product_tool [(''id'', JStr ''$&'')]) =
       Inr ''/store/products/{id}''
   \<and> String_js ns (JStr ''a$$b'') = Inr ''a$$b''
   \<and> map_sum id req_path
        (request_store ns fs env_key get_product_tool [(''id'', JStr ''a$$b'')]) =
       Inr ''/store/products/a$b''"
proof -
  have "map_sum id req_path
        (request_store ns fs env_key get_product_tool [(''id'', JStr ''$&'')]) =
       Inr ''/store/products/{id}''"
    by (simp add: request_store_def names_get_product product_tool_sel read_prop_def
        replace_js_def nullish_def String_read_def Let_def object_prototype_functions_def)
  moreover have "map_sum id req_path
        (request_store ns fs env_key get_product_tool [(''id'', JStr ''a$$b'')]) =
       Inr ''/store/products/a$b''"
    by (simp add: request_store_def names_get_product product_tool_sel read_prop_def
        replace_js_def nullish_def String_read_def Let_def object_prototype_functions_def)
  ultimately show ?thesis using wrapPath_store_get_product by simp
qed

section \<open>Properties of the service\<close>

subsection \<open>Compilation does not depend on the service's state\<close>

text \<open>
  Claim C8: compilation is a pure function of the catalog.  \<^verbatim>\<open>defineTools\<close> is a
  method of the service object; it neither reads nor writes the object's fields, so two
  runs on one catalog, in whatever states of the service (before or after
  \<^verbatim>\<open>init\<close>), give the same outcome: the same tool names in the same order with the
  same schema keys.
\<close>

theorem compilation_pure:
  "defineTools_admin zc (init res this) admin = defineTools_admin zc this admin
   \<and> map_sum id (map descriptor) (defineTools_admin zc this admin) =
       map_sum id (map descriptor) (defineTools_admin zc this' admin)
   \<and> map_sum id (map descriptor) (defineTools_store zc that store) =
       map_sum id (map descriptor) (defineTools_store zc that' store)"
  by (simp add: defineTools_result wrapPath_admin_def wrapPath_store_def)

subsection \<open>Admin tool names\<close>

lemma wrapPath_admin_name:
  "wrapPath_admin zc this p (single_method m d) = Inr t \<Longrightarrow>
   tool_name t = ''Admin'' @ the (operationId d)"
  by (auto simp: wrapPath_admin_def defineTool_def select_admin_def single_method_def
      split: if_splits sum.splits prod.splits)

text \<open>Every tool the admin surface compiles is named \<^verbatim>\<open>Admin\<close> plus the identifier.\<close>

lemma admin_tool_names:
  assumes "defineTools_admin zc this c = Inr ts"
  shows "map tool_name ts =
     map (\<lambda>(path, method, d). ''Admin'' @ the (operationId d)) (qualifying_operations c)"
proof -
  have "sequence_results (map f qs) = Inr ts \<Longrightarrow>
        (\<And>path m d t. f (path, m, d) = Inr t \<Longrightarrow> tool_name t = ''Admin'' @ the (operationId d))
        \<Longrightarrow> map tool_name ts = map (\<lambda>(path, method, d). ''Admin'' @ the (operationId d)) qs"
    for f and qs :: "(string \<times> string \<times> operation) list"
  proof (induction qs arbitrary: ts)
    case Nil
    then show ?case by simp
  next
    case (Cons q qs)
    obtain path m d where q: "q = (path, m, d)" by (cases q)
    from Cons.prems(1) obtain t ts' where t: "f q = Inr t"
      and ts': "sequence_results (map f qs) = Inr ts'" and ts: "ts = t # ts'"
      by (auto split: sum.splits)
    from Cons.IH[OF ts' Cons.prems(2)] Cons.prems(2)[of path m d t] t
    show ?case by (simp add: ts q)
  qed
  from this[of "\<lambda>(path, method, d). wrapPath_admin zc this path (single_method method d)"
      "qualifying_operations c"] assms
  show ?thesis by (simp add: defineTools_result wrapPath_admin_name)
qed

text \<open>The scenario compiles to the two tools when the \<^verbatim>\<open>get\<close> descriptor declares its
  path parameter, or an empty parameter list.\<close>

lemma admin_scenario_with_parameters:
  "ps = [] \<or> ps = [id_param] \<Longrightarrow>
   map_sum id (map tool_name)
     (defineTools_admin zc this
        [(''/admin/products/{id}'',
          \<lparr> get = Some ((bare_operation ''GetProduct'')\<lparr>parameters := Some ps\<rparr>), post = None,
            delete = Some (bare_operation ''DeleteProduct'') \<rparr>)]) =
   Inr [''AdminGetProduct'', ''AdminDeleteProduct'']"
  by (auto simp: defineTools_admin_def route_admin_def push_if_def has_operationId_def
      falsy_def wrapPath_admin_def defineTool_def select_admin_def only_get_def
      only_delete_def bare_operation_def schema_of_parameters_def paramSchema_def
      reducer_def assign_rule_def id_param_def)

text \<open>
  Claim C9: admin tools are named by prefixing \<^verbatim>\<open>Admin\<close> to the operation identifier
  (\<open>admin_tool_names\<close>), and the catalog with the one route \<^verbatim>\<open>/admin/products/{id}\<close>,
  \<^verbatim>\<open>get.operationId = "GetProduct"\<close> and \<^verbatim>\<open>delete.operationId = "DeleteProduct"\<close>
  compiles to the two tools \<^verbatim>\<open>AdminGetProduct\<close> and \<^verbatim>\<open>AdminDeleteProduct\<close>.  With
  descriptors that hold the identifiers and nothing else, the compilation aborts
  instead, on the \<^verbatim>\<open>get\<close> descriptor's missing \<^verbatim>\<open>parameters\<close> field.
\<close>

theorem admin_scenario_aborts:
  "defineTools_admin zc this admin_scenario = Inl TypeError"
  by (simp add: admin_scenario_def bare_operation_def defineTools_admin_def route_admin_def
      push_if_def has_operationId_def falsy_def wrapPath_admin_def defineTool_def
      select_admin_def only_get_def schema_of_parameters_def)

subsection \<open>Invoking an admin tool before \<^verbatim>\<open>init\<close>\<close>

text \<open>
  Claim C10: on a freshly constructed admin service, whose \<^verbatim>\<open>init\<close> has not run,
  a handler does not fail locally for want of the token.  Whenever the values under its
  declared path and query names have string forms, it dispatches its request: to the
  tool's method, on the tool's route with the path parameters substituted, with the
  query and the body built from the input, and with the three headers, of which
  \<^verbatim>\<open>Authorization\<close> is \<^verbatim>\<open>Bearer\<close>, a space, and the empty token the constructor
  left.  The only local failure is the TypeError of a string conversion, and it occurs
  before \<^verbatim>\<open>init\<close> exactly when it occurs in any other state of the service.
\<close>

theorem unauthenticated_dispatch:
  "(conversions_succeed t input \<longrightarrow>
      (\<exists>req. request_admin ns fs new_MedusaAdminService t input = Inr req
            \<and> handler_admin fetch ns fs new_MedusaAdminService t input = Inr (fetch req)
            \<and> req_method req = handler_method t
            \<and> substitute_path ns fs input (pathParamNames (handler_parameters t))
                (handler_refPath t) = Inr (req_path req)
            \<and> build_query ns fs input (queryParamNames (handler_parameters t)) [] =
                Inr (req_query req)
            \<and> req_body req = request_body (handler_method t) (handler_parameters t) input
            \<and> req_headers req =
                [(''Content-Type'', ''application/json''),
                 (''Accept'', ''application/json''),
                 (''Authorization'', ''Bearer '' @ adminToken new_MedusaAdminService)]
            \<and> adminToken new_MedusaAdminService = []))
   \<and> (\<not> conversions_succeed t input \<longrightarrow>
        handler_admin fetch ns fs new_MedusaAdminService t input = Inl TypeError)
   \<and> (request_admin ns fs new_MedusaAdminService t input = Inl e
        \<longleftrightarrow> request_admin ns fs this t input = Inl e)"
proof -
  have ok: "\<exists>req. request_admin ns fs new_MedusaAdminService t input = Inr req
            \<and> handler_admin fetch ns fs new_MedusaAdminService t input = Inr (fetch req)
            \<and> req_method req = handler_method t
            \<and> substitute_path ns fs input (pathParamNames (handler_parameters t))
                (handler_refPath t) = Inr (req_path req)
            \<and> build_query ns fs input (queryParamNames (handler_parameters t)) [] =
                Inr (req_query req)
            \<and> req_body req = request_body (handler_method t) (handler_parameters t) input
            \<and> req_headers req =
                [(''Content-Type'', ''application/json''),
                 (''Accept'', ''application/json''),
                 (''Authorization'', ''Bearer '' @ adminToken new_MedusaAdminService)]
            \<and> adminToken new_MedusaAdminService = []"
    if "conversions_succeed t input"
    using request_succeeds(1)[OF that, of ns fs new_MedusaAdminService]
    by (auto simp: request_admin_def handler_admin_def new_MedusaAdminService_def
        split: sum.splits)
  have fail: "handler_admin fetch ns fs new_MedusaAdminService t input = Inl TypeError"
    if "\<not> conversions_succeed t input"
    using request_fails(1)[OF that, of ns fs new_MedusaAdminService]
    by (simp add: handler_admin_def)
  have same: "request_admin ns fs new_MedusaAdminService t input = Inl e
        \<longleftrightarrow> request_admin ns fs this t input = Inl e"
    by (auto simp: request_admin_def split: sum.splits)
  show ?thesis using ok fail same by blast
qed

lemma search_request_admin:
  "request_admin (\<lambda>s. s) builtin_text new_MedusaAdminService (search_tool ''get'')
     search_input =
     Inr \<lparr> req_path = ''/admin/products/prod_1/variants'',
           req_method = ''get'',
           req_headers =
             [(''Content-Type'', ''application/json''),
              (''Accept'', ''application/json''),
              (''Authorization'', ''Bearer '')],
           req_query =
             [(''tags'', ''a''), (''tags'', ''7''), (''tags'', ''true''), (''tags'', ''null''),
              (''tags'', ''undefined''), (''tags'', ''x,,,y''), (''tags'', ''[object Object]''),
              (''tags'', ''a''), (''limit'', ''20''), (''flag'', ''false''), (''q'', ''shirt''),
              (''filter'', ''[object Object]''),
              (''constructor'', ''function Object() { [native code] }'')],
           req_body = None \<rparr>"
  by (simp add: request_admin_def names_search search_tool_sel read_search_input Let_def
      nullish_def String_read_def replace_js_def usp_append_def request_body_def
      builtin_text_def new_MedusaAdminService_def)

theorem unauthenticated_dispatch_witness:
  "conversions_succeed (search_tool ''get'') search_input
   \<and> handler_admin (\<lambda>req. req) (\<lambda>s. s) builtin_text new_MedusaAdminService
        (search_tool ''get'') search_input =
       Inr \<lparr> req_path = ''/admin/products/prod_1/variants'',
             req_method = ''get'',
             req_headers =
               [(''Content-Type'', ''application/json''),
                (''Accept'', ''application/json''),
                (''Authorization'', ''Bearer '')],
             req_query =
               [(''tags'', ''a''), (''tags'', ''7''), (''tags'', ''true''),
                (''tags'', ''null''), (''tags'', ''undefined''), (''tags'', ''x,,,y''),
                (''tags'', ''[object Object]''), (''tags'', ''a''), (''limit'', ''20''),
                (''flag'', ''false''), (''q'', ''shirt''), (''filter'', ''[object Object]''),
                (''constructor'', ''function Object() { [native code] }'')],
             req_body = None \<rparr>
   \<and> \<not> conversions_succeed (search_tool ''get'') unconvertible_input
   \<and> handler_admin (\<lambda>req. req) (\<lambda>s. s) builtin_text new_MedusaAdminService
        (search_tool ''get'') unconvertible_input = Inl TypeError
   \<and> handler_admin (\<lambda>req. req) (\<lambda>s. s) builtin_text (init ''token'' new_MedusaAdminService)
        (search_tool ''get'') unconvertible_input = Inl TypeError"
proof -
  have ok: "conversions_succeed (search_tool ''get'') search_input"
    by (simp add: conversions_succeed_def names_search read_search_input convertible_read_def)
  note u = unauthenticated_dispatch[where t = "search_tool ''get''" and ns = "\<lambda>s. s"
      and fs = builtin_text and fetch = "\<lambda>req. req" and e = TypeError
      and this = "init ''token'' new_MedusaAdminService"]
  from u[where input = search_input] ok obtain req where
    "request_admin (\<lambda>s. s) builtin_text new_MedusaAdminService (search_tool ''get'')
       search_input = Inr req"
    and h: "handler_admin (\<lambda>req. req) (\<lambda>s. s) builtin_text new_MedusaAdminService
       (search_tool ''get'') search_input = Inr req"
    by blast
  then have dispatched: "handler_admin (\<lambda>req. req) (\<lambda>s. s) builtin_text
      new_MedusaAdminService (search_tool ''get'') search_input =
      Inr \<lparr> req_path = ''/admin/products/prod_1/variants'',
             req_method = ''get'',
             req_headers =
               [(''Content-Type'', ''application/json''),
                (''Accept'', ''application/json''),
                (''Authorization'', ''Bearer '')],
             req_query =
               [(''tags'', ''a''), (''tags'', ''7''), (''tags'', ''true''),
                (''tags'', ''null''), (''tags'', ''undefined''), (''tags'', ''x,,,y''),
                (''tags'', ''[object Object]''), (''tags'', ''a''), (''limit'', ''20''),
                (''flag'', ''false''), (''q'', ''shirt''), (''filter'', ''[object Object]''),
                (''constructor'', ''function Object() { [native code] }'')],
             req_body = None \<rparr>"
    by (simp add: search_request_admin)
  from u[where input = unconvertible_input] search_request_unconvertible have
    before: "handler_admin (\<lambda>req. req) (\<lambda>s. s) builtin_text new_MedusaAdminService
       (search_tool ''get'') unconvertible_input = Inl TypeError"
    and same: "request_admin (\<lambda>s. s) builtin_text new_MedusaAdminService
         (search_tool ''get'') unconvertible_input = Inl TypeError
       \<longleftrightarrow> request_admin (\<lambda>s. s) builtin_text (init ''token'' new_MedusaAdminService)
         (search_tool ''get'') unconvertible_input = Inl TypeError"
    by blast+
  from before have "request_admin (\<lambda>s. s) builtin_text new_MedusaAdminService
         (search_tool ''get'') unconvertible_input = Inl TypeError"
    by (simp add: handler_admin_def split: sum.splits)
  with same have after: "handler_admin (\<lambda>req. req) (\<lambda>s. s) builtin_text
      (init ''token'' new_MedusaAdminService) (search_tool ''get'') unconvertible_input =
      Inl TypeError"
    by (simp add: handler_admin_def)
  from ok dispatched search_request_unconvertible before after show ?thesis by blast
qed

end
